theory Spec2Isabelle
  imports Complex_Main
begin


section \<open>Data model\<close>

text \<open>
  The four scripts \<^verbatim>\<open>Strategy_2.py\<close>, \<^verbatim>\<open>main3.py\<close>, \<^verbatim>\<open>main4.py\<close> and \<^verbatim>\<open>main5.py\<close>
  each define \<^verbatim>\<open>process_data\<close> (adds indicator columns to an OHLCV frame) and
  \<^verbatim>\<open>strat\<close> (walks the frame bar by bar and writes the columns \<^verbatim>\<open>signals\<close> and
  \<^verbatim>\<open>trade_type\<close>).

  A pandas float is modelled as a \<^typ>\<open>real\<close>; a float column that may hold NaN is a
  \<^typ>\<open>real option\<close> column with \<open>None\<close> for NaN. The OHLCV columns read from the CSV
  are taken to be NaN-free. A frame with the default \<^verbatim>\<open>RangeIndex\<close> is a list of rows,
  the label of a row being its position.
\<close>

datatype error = KeyError | TypeError | ValueError

datatype trade_type = HOLD | LONG | SHORT | CLOSE | REVERSE_LONG_TO_SHORT | REVERSE_SHORT_TO_LONG

type_synonym series = "real option list"

record row =
  open_p :: real
  high :: real
  low :: real
  close :: real
  volume :: real
  ATR :: "real option"
  EMA :: "real option"
  MACD :: "real option"
  MACD_signal :: "real option"
  RSI :: "real option"
  SMA :: "real option"

text \<open>The keyword parameters of \<^verbatim>\<open>process_data\<close> and \<^verbatim>\<open>strat\<close>, over all four scripts.\<close>

record config =
  ema_length :: int
  sma_length :: int
  atr_length :: int
  rsi_length :: int
  macd_fast :: int
  macd_slow :: int
  macd_signal :: int
  trailing_stop_multiplier :: real
  volume_lookback :: int
  num_wrong_limit :: int
  rsi_entry_threshold_long :: real
  rsi_entry_threshold_short :: real

text \<open>The three loop variables \<^verbatim>\<open>position\<close>, \<^verbatim>\<open>trailing_stop\<close>, \<^verbatim>\<open>num_wrong\<close>.\<close>

record pstate =
  position :: int
  trailing_stop :: real
  num_wrong :: int

text \<open>One output row: the columns \<^verbatim>\<open>signals\<close> and \<^verbatim>\<open>trade_type\<close>.\<close>

type_synonym sigrow = "int \<times> trade_type"

definition init_state :: pstate where
  "init_state = \<lparr>position = 0, trailing_stop = 0, num_wrong = 0\<rparr>"

definition init_out :: "row list \<Rightarrow> sigrow list" where
  "init_out data = replicate (length data) (0, HOLD)"

section \<open>pandas primitives used by the loop bodies\<close>

text \<open>\<^verbatim>\<open>a < b\<close> and \<^verbatim>\<open>a > b\<close> on floats that may be NaN: a comparison with NaN is False.\<close>

definition nan_lt :: "real option \<Rightarrow> real option \<Rightarrow> bool" where
  "nan_lt a b = (case a of None \<Rightarrow> False | Some x \<Rightarrow> (case b of None \<Rightarrow> False | Some y \<Rightarrow> x < y))"

definition nan_gt :: "real option \<Rightarrow> real option \<Rightarrow> bool" where
  "nan_gt a b = (case a of None \<Rightarrow> False | Some x \<Rightarrow> (case b of None \<Rightarrow> False | Some y \<Rightarrow> x > y))"

text \<open>
  \<^verbatim>\<open>s.loc[lo:hi]\<close> on a \<^verbatim>\<open>RangeIndex\<close>: label slicing, both ends included; labels outside
  the index are clipped.
\<close>

definition loc_slice :: "int \<Rightarrow> int \<Rightarrow> 'a list \<Rightarrow> 'a list" where
  "loc_slice lo hi xs = map (\<lambda>j. xs ! j) [nat (max 0 lo) ..< min (length xs) (nat (hi + 1))]"

text \<open>\<^verbatim>\<open>Series.mean()\<close>: NaN on an empty series.\<close>

definition mean :: "real list \<Rightarrow> real option" where
  "mean xs = (if xs = [] then None else Some (sum_list xs / real (length xs)))"

text \<open>\<^verbatim>\<open>Series.std()\<close>: the sample standard deviation (ddof = 1), NaN below two values.\<close>

definition std :: "real list \<Rightarrow> real option" where
  "std xs = (if length xs < 2 then None
     else Some (sqrt (sum_list (map (\<lambda>x. (x - sum_list xs / real (length xs))\<^sup>2) xs)
                       / (real (length xs) - 1))))"

text \<open>\<^verbatim>\<open>vol_window.mean() + 1.5 * vol_window.std()\<close>, NaN if either part is.\<close>

definition vol_spike_threshold :: "real list \<Rightarrow> real option" where
  "vol_spike_threshold vol_window =
     (case mean vol_window of None \<Rightarrow> None
      | Some m \<Rightarrow> (case std vol_window of None \<Rightarrow> None | Some s \<Rightarrow> Some (m + 1.5 * s)))"

text \<open>
  The volume-spike test of \<^verbatim>\<open>main3.py\<close> and \<^verbatim>\<open>main4.py\<close> at bar \<open>i\<close>:
  \<^verbatim>\<open>vol = data.loc[i, 'volume']\<close>,
  \<^verbatim>\<open>vol_window = data.loc[i - volume_lookback: i, 'volume']\<close>,
  \<^verbatim>\<open>volume_spike = vol > vol_spike_threshold\<close>.
\<close>

definition vol_window_at :: "config \<Rightarrow> row list \<Rightarrow> nat \<Rightarrow> real list" where
  "vol_window_at cfg data i = loc_slice (int i - volume_lookback cfg) (int i) (map volume data)"

definition volume_spike_at :: "config \<Rightarrow> row list \<Rightarrow> nat \<Rightarrow> bool" where
  "volume_spike_at cfg data i =
     (let vol = volume (data ! i);
          vol_window = vol_window_at cfg data i
      in nan_gt (Some vol) (vol_spike_threshold vol_window))"

text \<open>\<^verbatim>\<open>data.loc[i - 1, 'close']\<close>: label \<open>-1\<close> is not in the index.\<close>

definition prev_close :: "row list \<Rightarrow> nat \<Rightarrow> error + real" where
  "prev_close data i = (if i = 0 then Inl KeyError else Inr (close (data ! (i - 1))))"

section \<open>The bar-by-bar loop\<close>

text \<open>
  \<^verbatim>\<open>for i in range(start_idx, len(data)): ...\<close>. The body reads the frame and the loop
  variables, and returns the new loop variables together with the row it writes at label
  \<open>i\<close> (\<open>None\<close> when it writes nothing, so that the row keeps its initial 0 / HOLD).
  A raised exception ends the loop.
\<close>

type_synonym body = "nat \<Rightarrow> pstate \<Rightarrow> error + (pstate \<times> sigrow option)"

definition write_row :: "nat \<Rightarrow> sigrow option \<Rightarrow> sigrow list \<Rightarrow> sigrow list" where
  "write_row i w out = (case w of None \<Rightarrow> out | Some r \<Rightarrow> out[i := r])"

fun walk :: "body \<Rightarrow> nat list \<Rightarrow> pstate \<Rightarrow> sigrow list \<Rightarrow> error + (pstate \<times> sigrow list)" where
  "walk b [] st out = Inr (st, out)"
| "walk b (i # is) st out =
     (case b i st of
        Inl e \<Rightarrow> Inl e
      | Inr (st', w) \<Rightarrow> walk b is st' (write_row i w out))"

text \<open>
  The loop run for the labels \<open>start_idx, \<dots>, k - 1\<close> only; \<^verbatim>\<open>strat\<close> is the case
  \<open>k = len(data)\<close>. A negative \<open>start_idx\<close> makes the first iteration read a label that
  is not in the index.
\<close>

definition run_upto :: "body \<Rightarrow> int \<Rightarrow> row list \<Rightarrow> nat \<Rightarrow> error + (pstate \<times> sigrow list)" where
  "run_upto b start_idx data k =
     (if start_idx < 0 then Inl KeyError
      else walk b [nat start_idx ..< k] init_state (init_out data))"

definition run_loop :: "body \<Rightarrow> int \<Rightarrow> row list \<Rightarrow> error + sigrow list" where
  "run_loop b start_idx data = map_sum id snd (run_upto b start_idx data (length data))"

section \<open>main3.py: volume spike, ATR trailing stop, reversal\<close>

definition start_idx_main3 :: "config \<Rightarrow> int" where
  "start_idx_main3 cfg = max (atr_length cfg) (volume_lookback cfg)"

definition body_main3 :: "config \<Rightarrow> row list \<Rightarrow> body" where
  "body_main3 cfg data i st =
    (let close_i = close (data ! i);
         open_i = open_p (data ! i)
     in case ATR (data ! i) of
          None \<Rightarrow> Inr (st, None)
        | Some atr \<Rightarrow>
         (let volume_spike = volume_spike_at cfg data i
          in if position st = 0 then
               (if volume_spike then
                  (if close_i > open_i then
                     Inr (\<lparr>position = 1,
                           trailing_stop = close_i - atr * trailing_stop_multiplier cfg,
                           num_wrong = 0\<rparr>, Some (1, LONG))
                   else if close_i < open_i then
                     Inr (\<lparr>position = - 1,
                           trailing_stop = close_i + atr * trailing_stop_multiplier cfg,
                           num_wrong = 0\<rparr>, Some (- 1, SHORT))
                   else Inr (st, None))
                else Inr (st, None))
             else if position st = 1 then
               (let trend_reversal = (volume_spike \<and> close_i < open_i)
                in case prev_close data i of
                     Inl e \<Rightarrow> Inl e
                   | Inr pc \<Rightarrow>
                    (let nw = (if close_i \<le> pc then num_wrong st + 1 else 0)
                     in if trend_reversal then
                          Inr (\<lparr>position = - 1,
                                trailing_stop = close_i + atr * trailing_stop_multiplier cfg,
                                num_wrong = 0\<rparr>, Some (- 2, REVERSE_LONG_TO_SHORT))
                        else if nw \<ge> num_wrong_limit cfg then
                          Inr (st\<lparr>position := 0, num_wrong := 0\<rparr>, Some (- 1, CLOSE))
                        else if close_i < trailing_stop st then
                          Inr (st\<lparr>position := 0, num_wrong := 0\<rparr>, Some (- 1, CLOSE))
                        else
                          Inr (st\<lparr>trailing_stop :=
                                     max (trailing_stop st)
                                         (close_i - atr * trailing_stop_multiplier cfg),
                                   num_wrong := nw\<rparr>, None)))
             else if position st = - 1 then
               (let trend_reversal = (volume_spike \<and> close_i > open_i)
                in case prev_close data i of
                     Inl e \<Rightarrow> Inl e
                   | Inr pc \<Rightarrow>
                    (let nw = (if close_i \<ge> pc then num_wrong st + 1 else 0)
                     in if trend_reversal then
                          Inr (\<lparr>position = 1,
                                trailing_stop = close_i - atr * trailing_stop_multiplier cfg,
                                num_wrong = 0\<rparr>, Some (2, REVERSE_SHORT_TO_LONG))
                        else if nw \<ge> num_wrong_limit cfg then
                          Inr (st\<lparr>position := 0, num_wrong := 0\<rparr>, Some (1, CLOSE))
                        else if close_i > trailing_stop st then
                          Inr (st\<lparr>position := 0, num_wrong := 0\<rparr>, Some (1, CLOSE))
                        else
                          Inr (st\<lparr>trailing_stop :=
                                     min (trailing_stop st)
                                         (close_i + atr * trailing_stop_multiplier cfg),
                                   num_wrong := nw\<rparr>, None)))
             else Inr (st, None)))"

definition strat_main3 :: "config \<Rightarrow> row list \<Rightarrow> error + sigrow list" where
  "strat_main3 cfg data = run_loop (body_main3 cfg data) (start_idx_main3 cfg) data"

section \<open>main4.py: volume spike with an RSI momentum filter\<close>

definition start_idx_main4 :: "config \<Rightarrow> int" where
  "start_idx_main4 cfg = max (atr_length cfg) (volume_lookback cfg)"

definition body_main4 :: "config \<Rightarrow> row list \<Rightarrow> body" where
  "body_main4 cfg data i st =
    (let close_i = close (data ! i);
         open_i = open_p (data ! i)
     in case ATR (data ! i) of
          None \<Rightarrow> Inr (st, None)
        | Some atr \<Rightarrow>
         (case RSI (data ! i) of
            None \<Rightarrow> Inr (st, None)
          | Some rsi \<Rightarrow>
           (let volume_spike = volume_spike_at cfg data i
            in if position st = 0 then
                 (if volume_spike then
                    (if close_i > open_i \<and> rsi \<ge> rsi_entry_threshold_long cfg then
                       Inr (\<lparr>position = 1,
                             trailing_stop = close_i - atr * trailing_stop_multiplier cfg,
                             num_wrong = 0\<rparr>, Some (1, LONG))
                     else if close_i < open_i \<and> rsi \<le> rsi_entry_threshold_short cfg then
                       Inr (\<lparr>position = - 1,
                             trailing_stop = close_i + atr * trailing_stop_multiplier cfg,
                             num_wrong = 0\<rparr>, Some (- 1, SHORT))
                     else Inr (st, None))
                  else Inr (st, None))
               else if position st = 1 then
                 (let trend_reversal = (volume_spike \<and> close_i < open_i)
                  in case prev_close data i of
                       Inl e \<Rightarrow> Inl e
                     | Inr pc \<Rightarrow>
                      (let nw = (if close_i \<le> pc then num_wrong st + 1 else 0)
                       in if trend_reversal \<and> rsi \<le> rsi_entry_threshold_short cfg then
                            Inr (\<lparr>position = - 1,
                                  trailing_stop = close_i + atr * trailing_stop_multiplier cfg,
                                  num_wrong = 0\<rparr>, Some (- 2, REVERSE_LONG_TO_SHORT))
                          else if nw \<ge> num_wrong_limit cfg then
                            Inr (st\<lparr>position := 0, num_wrong := 0\<rparr>, Some (- 1, CLOSE))
                          else if close_i < trailing_stop st then
                            Inr (st\<lparr>position := 0, num_wrong := 0\<rparr>, Some (- 1, CLOSE))
                          else
                            Inr (st\<lparr>trailing_stop :=
                                       max (trailing_stop st)
                                           (close_i - atr * trailing_stop_multiplier cfg),
                                     num_wrong := nw\<rparr>, None)))
               else if position st = - 1 then
                 (let trend_reversal = (volume_spike \<and> close_i > open_i)
                  in case prev_close data i of
                       Inl e \<Rightarrow> Inl e
                     | Inr pc \<Rightarrow>
                      (let nw = (if close_i \<ge> pc then num_wrong st + 1 else 0)
                       in if trend_reversal \<and> rsi \<ge> rsi_entry_threshold_long cfg then
                            Inr (\<lparr>position = 1,
                                  trailing_stop = close_i - atr * trailing_stop_multiplier cfg,
                                  num_wrong = 0\<rparr>, Some (2, REVERSE_SHORT_TO_LONG))
                          else if nw \<ge> num_wrong_limit cfg then
                            Inr (st\<lparr>position := 0, num_wrong := 0\<rparr>, Some (1, CLOSE))
                          else if close_i > trailing_stop st then
                            Inr (st\<lparr>position := 0, num_wrong := 0\<rparr>, Some (1, CLOSE))
                          else
                            Inr (st\<lparr>trailing_stop :=
                                       min (trailing_stop st)
                                           (close_i + atr * trailing_stop_multiplier cfg),
                                     num_wrong := nw\<rparr>, None)))
               else Inr (st, None))))"

definition strat_main4 :: "config \<Rightarrow> row list \<Rightarrow> error + sigrow list" where
  "strat_main4 cfg data = run_loop (body_main4 cfg data) (start_idx_main4 cfg) data"

section \<open>main5.py: SMA trend filter, RSI momentum, ATR trailing stop\<close>

definition start_idx_main5 :: "config \<Rightarrow> int" where
  "start_idx_main5 cfg = max (sma_length cfg) (atr_length cfg)"

definition body_main5 :: "config \<Rightarrow> row list \<Rightarrow> body" where
  "body_main5 cfg data i st =
    (let close_i = close (data ! i);
         open_i = open_p (data ! i)
     in case ATR (data ! i) of
          None \<Rightarrow> Inr (st, None)
        | Some atr \<Rightarrow>
         (case RSI (data ! i) of
            None \<Rightarrow> Inr (st, None)
          | Some rsi \<Rightarrow>
           (case SMA (data ! i) of
              None \<Rightarrow> Inr (st, None)
            | Some sma \<Rightarrow>
               if position st = 0 then
                 (if close_i > sma \<and> rsi \<ge> rsi_entry_threshold_long cfg \<and> close_i > open_i then
                    Inr (\<lparr>position = 1,
                          trailing_stop = close_i - atr * trailing_stop_multiplier cfg,
                          num_wrong = 0\<rparr>, Some (1, LONG))
                  else if close_i < sma \<and> rsi \<le> rsi_entry_threshold_short cfg
                          \<and> close_i < open_i then
                    Inr (\<lparr>position = - 1,
                          trailing_stop = close_i + atr * trailing_stop_multiplier cfg,
                          num_wrong = 0\<rparr>, Some (- 1, SHORT))
                  else Inr (st, None))
               else if position st = 1 then
                 (case prev_close data i of
                    Inl e \<Rightarrow> Inl e
                  | Inr pc \<Rightarrow>
                   (let nw = (if close_i \<le> pc then num_wrong st + 1 else 0);
                        exit_signal = (rsi < rsi_entry_threshold_short cfg \<or> close_i < sma)
                    in if exit_signal \<or> nw \<ge> num_wrong_limit cfg \<or> close_i < trailing_stop st then
                         Inr (st\<lparr>position := 0, num_wrong := 0\<rparr>, Some (- 1, CLOSE))
                       else
                         Inr (st\<lparr>trailing_stop :=
                                    max (trailing_stop st)
                                        (close_i - atr * trailing_stop_multiplier cfg),
                                  num_wrong := nw\<rparr>, None)))
               else if position st = - 1 then
                 (case prev_close data i of
                    Inl e \<Rightarrow> Inl e
                  | Inr pc \<Rightarrow>
                   (let nw = (if close_i \<ge> pc then num_wrong st + 1 else 0);
                        exit_signal = (rsi > rsi_entry_threshold_long cfg \<or> close_i > sma)
                    in if exit_signal \<or> nw \<ge> num_wrong_limit cfg \<or> close_i > trailing_stop st then
                         Inr (st\<lparr>position := 0, num_wrong := 0\<rparr>, Some (1, CLOSE))
                       else
                         Inr (st\<lparr>trailing_stop :=
                                    min (trailing_stop st)
                                        (close_i + atr * trailing_stop_multiplier cfg),
                                  num_wrong := nw\<rparr>, None)))
               else Inr (st, None))))"

definition strat_main5 :: "config \<Rightarrow> row list \<Rightarrow> error + sigrow list" where
  "strat_main5 cfg data = run_loop (body_main5 cfg data) (start_idx_main5 cfg) data"

section \<open>Strategy\_2.py: EMA trend filter, MACD crossover, ATR trailing stop\<close>

definition start_idx_Strategy_2 :: "config \<Rightarrow> int" where
  "start_idx_Strategy_2 cfg = max (max (ema_length cfg) (atr_length cfg)) 26"

text \<open>
  The previous bar's MACD values are read before the NaN test, and are not themselves
  tested: a NaN there makes both crossover comparisons False.
\<close>

definition body_Strategy_2 :: "config \<Rightarrow> row list \<Rightarrow> body" where
  "body_Strategy_2 cfg data i st =
    (let close_i = close (data ! i);
         open_i = open_p (data ! i)
     in if i = 0 then Inl KeyError
        else
         (let prev_macd = MACD (data ! (i - 1));
              prev_macd_signal = MACD_signal (data ! (i - 1))
          in case ATR (data ! i) of
               None \<Rightarrow> Inr (st, None)
             | Some atr \<Rightarrow>
              (case MACD (data ! i) of
                 None \<Rightarrow> Inr (st, None)
               | Some macd \<Rightarrow>
                (case MACD_signal (data ! i) of
                   None \<Rightarrow> Inr (st, None)
                 | Some macd_sig \<Rightarrow>
                  (case EMA (data ! i) of
                     None \<Rightarrow> Inr (st, None)
                   | Some ema \<Rightarrow>
                    (let macd_cross_up =
                           (nan_lt prev_macd prev_macd_signal \<and> macd > macd_sig);
                         macd_cross_down =
                           (nan_gt prev_macd prev_macd_signal \<and> macd < macd_sig)
                     in if position st = 0 then
                          (if close_i > ema \<and> macd_cross_up \<and> close_i > open_i then
                             Inr (\<lparr>position = 1,
                                   trailing_stop = close_i - atr * trailing_stop_multiplier cfg,
                                   num_wrong = 0\<rparr>, Some (1, LONG))
                           else if close_i < ema \<and> macd_cross_down \<and> close_i < open_i then
                             Inr (\<lparr>position = - 1,
                                   trailing_stop = close_i + atr * trailing_stop_multiplier cfg,
                                   num_wrong = 0\<rparr>, Some (- 1, SHORT))
                           else Inr (st, None))
                        else if position st = 1 then
                          (case prev_close data i of
                             Inl e \<Rightarrow> Inl e
                           | Inr pc \<Rightarrow>
                            (let nw = (if close_i \<le> pc then num_wrong st + 1 else 0);
                                 exit_signal = (macd_cross_down \<or> close_i < ema)
                             in if exit_signal \<or> nw \<ge> num_wrong_limit cfg
                                   \<or> close_i < trailing_stop st then
                                  Inr (st\<lparr>position := 0, num_wrong := 0\<rparr>, Some (- 1, CLOSE))
                                else
                                  Inr (st\<lparr>trailing_stop :=
                                             max (trailing_stop st)
                                                 (close_i - atr * trailing_stop_multiplier cfg),
                                           num_wrong := nw\<rparr>, None)))
                        else if position st = - 1 then
                          (case prev_close data i of
                             Inl e \<Rightarrow> Inl e
                           | Inr pc \<Rightarrow>
                            (let nw = (if close_i \<ge> pc then num_wrong st + 1 else 0);
                                 exit_signal = (macd_cross_up \<or> close_i > ema)
                             in if exit_signal \<or> nw \<ge> num_wrong_limit cfg
                                   \<or> close_i > trailing_stop st then
                                  Inr (st\<lparr>position := 0, num_wrong := 0\<rparr>, Some (1, CLOSE))
                                else
                                  Inr (st\<lparr>trailing_stop :=
                                             min (trailing_stop st)
                                                 (close_i + atr * trailing_stop_multiplier cfg),
                                           num_wrong := nw\<rparr>, None)))
                        else Inr (st, None)))))))"

definition strat_Strategy_2 :: "config \<Rightarrow> row list \<Rightarrow> error + sigrow list" where
  "strat_Strategy_2 cfg data =
     run_loop (body_Strategy_2 cfg data) (start_idx_Strategy_2 cfg) data"

section \<open>The four variants together\<close>

datatype variant = Strategy_2 | Main3 | Main4 | Main5

definition body_of :: "variant \<Rightarrow> config \<Rightarrow> row list \<Rightarrow> body" where
  "body_of v = (case v of Strategy_2 \<Rightarrow> body_Strategy_2 | Main3 \<Rightarrow> body_main3
                | Main4 \<Rightarrow> body_main4 | Main5 \<Rightarrow> body_main5)"

definition start_idx :: "variant \<Rightarrow> config \<Rightarrow> int" where
  "start_idx v = (case v of Strategy_2 \<Rightarrow> start_idx_Strategy_2 | Main3 \<Rightarrow> start_idx_main3
                  | Main4 \<Rightarrow> start_idx_main4 | Main5 \<Rightarrow> start_idx_main5)"

definition strat :: "variant \<Rightarrow> config \<Rightarrow> row list \<Rightarrow> error + sigrow list" where
  "strat v = (case v of Strategy_2 \<Rightarrow> strat_Strategy_2 | Main3 \<Rightarrow> strat_main3
              | Main4 \<Rightarrow> strat_main4 | Main5 \<Rightarrow> strat_main5)"

text \<open>The loop variables on entering bar \<open>k\<close>, with the output written so far.\<close>

definition state_at :: "variant \<Rightarrow> config \<Rightarrow> row list \<Rightarrow> nat \<Rightarrow> error + (pstate \<times> sigrow list)" where
  "state_at v cfg data k = run_upto (body_of v cfg data) (start_idx v cfg) data k"

text \<open>
  The NaN test that makes the loop body \<^verbatim>\<open>continue\<close>: the indicators each script
  reads at bar \<open>i\<close> and tests with \<^verbatim>\<open>pd.isna\<close>.
\<close>

definition isna_required :: "variant \<Rightarrow> row \<Rightarrow> bool" where
  "isna_required v r =
     (case v of
        Strategy_2 \<Rightarrow> ATR r = None \<or> MACD r = None \<or> MACD_signal r = None \<or> EMA r = None
      | Main3 \<Rightarrow> ATR r = None
      | Main4 \<Rightarrow> ATR r = None \<or> RSI r = None
      | Main5 \<Rightarrow> ATR r = None \<or> RSI r = None \<or> SMA r = None)"

section \<open>process\_data: the indicator columns\<close>

text \<open>
  The indicators are computed by pandas and pandas\_ta, which are not part of the
  repository; they are parameters of the model. \<^verbatim>\<open>ta.atr\<close>, \<^verbatim>\<open>ta.rsi\<close> and
  \<^verbatim>\<open>ta.macd\<close> may return \<^verbatim>\<open>None\<close> instead of a series; \<^verbatim>\<open>ewm(...).mean()\<close> and
  \<^verbatim>\<open>rolling(...).mean()\<close> return a series or raise.
\<close>

record ta_lib =
  ta_atr :: "real list \<Rightarrow> real list \<Rightarrow> real list \<Rightarrow> int \<Rightarrow> series option"
  ta_rsi :: "real list \<Rightarrow> int \<Rightarrow> series option"
  ta_macd :: "real list \<Rightarrow> int \<Rightarrow> int \<Rightarrow> int \<Rightarrow> (series \<times> series) option"
  ewm_mean :: "real list \<Rightarrow> int \<Rightarrow> error + series"
  rolling_mean :: "real list \<Rightarrow> int \<Rightarrow> error + series"

text \<open>
  \<^verbatim>\<open>data['X'] = s\<close> for a frame of \<open>n\<close> rows: the series is aligned on the frame's
  index (a label missing from the series reads NaN), and assigning \<^verbatim>\<open>None\<close> fills the
  column with \<^verbatim>\<open>None\<close>, which \<^verbatim>\<open>pd.isna\<close> accepts.
\<close>

definition align :: "nat \<Rightarrow> series option \<Rightarrow> series" where
  "align n s =
     map (\<lambda>i. case s of None \<Rightarrow> None | Some c \<Rightarrow> if i < length c then c ! i else None) [0..<n]"

definition process_data_main3 :: "ta_lib \<Rightarrow> config \<Rightarrow> row list \<Rightarrow> row list" where
  "process_data_main3 lib cfg data =
     (let atr = align (length data)
                  (ta_atr lib (map high data) (map low data) (map close data) (atr_length cfg))
      in map (\<lambda>i. (data ! i)\<lparr>ATR := atr ! i\<rparr>) [0..<length data])"

definition process_data_main4 :: "ta_lib \<Rightarrow> config \<Rightarrow> row list \<Rightarrow> row list" where
  "process_data_main4 lib cfg data =
     (let atr = align (length data)
                  (ta_atr lib (map high data) (map low data) (map close data) (atr_length cfg));
          rsi = align (length data) (ta_rsi lib (map close data) (rsi_length cfg))
      in map (\<lambda>i. (data ! i)\<lparr>ATR := atr ! i, RSI := rsi ! i\<rparr>) [0..<length data])"

definition process_data_main5 :: "ta_lib \<Rightarrow> config \<Rightarrow> row list \<Rightarrow> error + row list" where
  "process_data_main5 lib cfg data =
     (case rolling_mean lib (map close data) (sma_length cfg) of
        Inl e \<Rightarrow> Inl e
      | Inr sma_s \<Rightarrow>
         (let sma = align (length data) (Some sma_s);
              atr = align (length data)
                      (ta_atr lib (map high data) (map low data) (map close data) (atr_length cfg));
              rsi = align (length data) (ta_rsi lib (map close data) (rsi_length cfg))
          in Inr (map (\<lambda>i. (data ! i)\<lparr>SMA := sma ! i, ATR := atr ! i, RSI := rsi ! i\<rparr>)
                      [0..<length data])))"

text \<open>
  In \<^verbatim>\<open>Strategy_2.py\<close> the result of \<^verbatim>\<open>ta.macd\<close> is subscripted at once, which raises
  \<^verbatim>\<open>TypeError\<close> on \<^verbatim>\<open>None\<close>.
\<close>

definition process_data_Strategy_2 :: "ta_lib \<Rightarrow> config \<Rightarrow> row list \<Rightarrow> error + row list" where
  "process_data_Strategy_2 lib cfg data =
     (case ewm_mean lib (map close data) (ema_length cfg) of
        Inl e \<Rightarrow> Inl e
      | Inr ema_s \<Rightarrow>
         (let ema = align (length data) (Some ema_s);
              atr = align (length data)
                      (ta_atr lib (map high data) (map low data) (map close data) (atr_length cfg))
          in case ta_macd lib (map close data) (macd_fast cfg) (macd_slow cfg) (macd_signal cfg) of
               None \<Rightarrow> Inl TypeError
             | Some (macd_s, macds_s) \<Rightarrow>
                (let macd = align (length data) (Some macd_s);
                     macds = align (length data) (Some macds_s)
                 in Inr (map (\<lambda>i. (data ! i)\<lparr>EMA := ema ! i, ATR := atr ! i,
                                              MACD := macd ! i, MACD_signal := macds ! i\<rparr>)
                             [0..<length data]))))"

definition process_data :: "variant \<Rightarrow> ta_lib \<Rightarrow> config \<Rightarrow> row list \<Rightarrow> error + row list" where
  "process_data v lib cfg data =
     (case v of
        Strategy_2 \<Rightarrow> process_data_Strategy_2 lib cfg data
      | Main3 \<Rightarrow> Inr (process_data_main3 lib cfg data)
      | Main4 \<Rightarrow> Inr (process_data_main4 lib cfg data)
      | Main5 \<Rightarrow> process_data_main5 lib cfg data)"

text \<open>
  \<^verbatim>\<open>strat(process_data(data))\<close>, as \<^verbatim>\<open>main\<close> runs it on the whole file and the
  look-ahead check on \<^verbatim>\<open>data.iloc[:i+1]\<close>. \<open>pcfg\<close> holds the parameters given to
  \<^verbatim>\<open>process_data\<close>, \<open>cfg\<close> those given to \<^verbatim>\<open>strat\<close>.
\<close>

definition pipeline :: "variant \<Rightarrow> ta_lib \<Rightarrow> config \<Rightarrow> config \<Rightarrow> row list \<Rightarrow> error + sigrow list" where
  "pipeline v lib pcfg cfg data =
     (case process_data v lib pcfg data of Inl e \<Rightarrow> Inl e | Inr frame \<Rightarrow> strat v cfg frame)"

text \<open>
  The indicator library is causal on \<open>data\<close> at \<open>i\<close>: computed from the bars \<open>0..i\<close>
  alone, every indicator has the values at \<open>0..i\<close> that it has when computed from all the
  bars (and fails on the one input exactly when it fails on the other).
\<close>

definition macd_cols :: "nat \<Rightarrow> (series \<times> series) option \<Rightarrow> (series \<times> series) option" where
  "macd_cols n r = map_option (\<lambda>(m, s). (align n (Some m), align n (Some s))) r"

definition causal_at :: "ta_lib \<Rightarrow> config \<Rightarrow> row list \<Rightarrow> nat \<Rightarrow> bool" where
  "causal_at lib cfg data i =
     (let p = take (Suc i) data; n = Suc i
      in align n (ta_atr lib (map high p) (map low p) (map close p) (atr_length cfg))
           = align n (ta_atr lib (map high data) (map low data) (map close data) (atr_length cfg))
       \<and> align n (ta_rsi lib (map close p) (rsi_length cfg))
           = align n (ta_rsi lib (map close data) (rsi_length cfg))
       \<and> macd_cols n (ta_macd lib (map close p) (macd_fast cfg) (macd_slow cfg) (macd_signal cfg))
           = macd_cols n (ta_macd lib (map close data) (macd_fast cfg) (macd_slow cfg)
                            (macd_signal cfg))
       \<and> map_sum id (\<lambda>c. align n (Some c)) (ewm_mean lib (map close p) (ema_length cfg))
           = map_sum id (\<lambda>c. align n (Some c)) (ewm_mean lib (map close data) (ema_length cfg))
       \<and> map_sum id (\<lambda>c. align n (Some c)) (rolling_mean lib (map close p) (sma_length cfg))
           = map_sum id (\<lambda>c. align n (Some c)) (rolling_mean lib (map close data) (sma_length cfg)))"

text \<open>The row a loop step leaves at its label: the written one, or the initial 0 / HOLD.\<close>

definition row_written :: "sigrow option \<Rightarrow> sigrow" where
  "row_written w = (case w of None \<Rightarrow> (0, HOLD) | Some r \<Rightarrow> r)"

text \<open>
  The reversal test of the volume-spike scripts for a held position \<open>pos\<close> (1 long,
  -1 short): \<^verbatim>\<open>trend_reversal\<close> in \<^verbatim>\<open>main3.py\<close>, and
  \<^verbatim>\<open>trend_reversal and rsi <= rsi_entry_threshold_short\<close> (long) or
  \<^verbatim>\<open>trend_reversal and rsi >= rsi_entry_threshold_long\<close> (short) in \<^verbatim>\<open>main4.py\<close>.
  The other two scripts have no reversal.
\<close>

definition reversal_fires :: "variant \<Rightarrow> config \<Rightarrow> row list \<Rightarrow> nat \<Rightarrow> int \<Rightarrow> bool" where
  "reversal_fires v cfg data i pos =
     (case v of
        Main3 \<Rightarrow>
          volume_spike_at cfg data i
          \<and> (if pos = 1 then close (data ! i) < open_p (data ! i)
              else close (data ! i) > open_p (data ! i))
      | Main4 \<Rightarrow>
          volume_spike_at cfg data i
          \<and> (if pos = 1
              then close (data ! i) < open_p (data ! i)
                   \<and> (case RSI (data ! i) of None \<Rightarrow> False
                       | Some rsi \<Rightarrow> rsi \<le> rsi_entry_threshold_short cfg)
              else close (data ! i) > open_p (data ! i)
                   \<and> (case RSI (data ! i) of None \<Rightarrow> False
                       | Some rsi \<Rightarrow> rsi \<ge> rsi_entry_threshold_long cfg))
      | Strategy_2 \<Rightarrow> False
      | Main5 \<Rightarrow> False)"

text \<open>
  The bar is adverse for a held position \<open>pos\<close>: the test that increments
  \<^verbatim>\<open>num_wrong\<close> (\<^verbatim>\<open>close <= data.loc[i - 1, 'close']\<close> when long, \<^verbatim>\<open>>=\<close> when short).
\<close>

definition adverse :: "row list \<Rightarrow> nat \<Rightarrow> int \<Rightarrow> bool" where
  "adverse data i pos =
     (if pos = 1 then close (data ! i) \<le> close (data ! (i - 1))
      else close (data ! i) \<ge> close (data ! (i - 1)))"

section \<open>The common shape of a loop step\<close>

text \<open>
  Every iteration of each of the four loops is one of these transitions of the loop
  variables; \<open>r\<close> is the row of the bar. The bodies differ only in the tests that select the
  transition.
\<close>

inductive trans :: "config \<Rightarrow> row \<Rightarrow> pstate \<Rightarrow> pstate \<Rightarrow> sigrow option \<Rightarrow> bool"
  for cfg :: config and r :: row
where
  skip: "trans cfg r st st None"
| open_long: "position st = 0 \<Longrightarrow> ATR r = Some a \<Longrightarrow>
    trans cfg r st \<lparr>position = 1, trailing_stop = close r - a * trailing_stop_multiplier cfg,
                    num_wrong = 0\<rparr> (Some (1, LONG))"
| open_short: "position st = 0 \<Longrightarrow> ATR r = Some a \<Longrightarrow>
    trans cfg r st \<lparr>position = - 1, trailing_stop = close r + a * trailing_stop_multiplier cfg,
                    num_wrong = 0\<rparr> (Some (- 1, SHORT))"
| reverse_long: "position st = 1 \<Longrightarrow> ATR r = Some a \<Longrightarrow>
    trans cfg r st \<lparr>position = - 1, trailing_stop = close r + a * trailing_stop_multiplier cfg,
                    num_wrong = 0\<rparr> (Some (- 2, REVERSE_LONG_TO_SHORT))"
| reverse_short: "position st = - 1 \<Longrightarrow> ATR r = Some a \<Longrightarrow>
    trans cfg r st \<lparr>position = 1, trailing_stop = close r - a * trailing_stop_multiplier cfg,
                    num_wrong = 0\<rparr> (Some (2, REVERSE_SHORT_TO_LONG))"
| close_long: "position st = 1 \<Longrightarrow>
    trans cfg r st (st\<lparr>position := 0, num_wrong := 0\<rparr>) (Some (- 1, CLOSE))"
| close_short: "position st = - 1 \<Longrightarrow>
    trans cfg r st (st\<lparr>position := 0, num_wrong := 0\<rparr>) (Some (1, CLOSE))"
| hold_long: "position st = 1 \<Longrightarrow> ATR r = Some a \<Longrightarrow> nw < num_wrong_limit cfg \<Longrightarrow>
    nw = 0 \<or> nw = num_wrong st + 1 \<Longrightarrow>
    trans cfg r st (st\<lparr>trailing_stop := max (trailing_stop st)
                                           (close r - a * trailing_stop_multiplier cfg),
                         num_wrong := nw\<rparr>) None"
| hold_short: "position st = - 1 \<Longrightarrow> ATR r = Some a \<Longrightarrow> nw < num_wrong_limit cfg \<Longrightarrow>
    nw = 0 \<or> nw = num_wrong st + 1 \<Longrightarrow>
    trans cfg r st (st\<lparr>trailing_stop := min (trailing_stop st)
                                           (close r + a * trailing_stop_multiplier cfg),
                         num_wrong := nw\<rparr>) None"

text \<open>
  What a processed bar (no required indicator NaN) does to a held position: the reversal
  first, then the forced close when the adverse count reaches the limit; a bar that writes nothing
  and is adverse advances the counter.
\<close>

definition held_spec :: "variant \<Rightarrow> config \<Rightarrow> row list \<Rightarrow> nat \<Rightarrow> pstate \<Rightarrow> pstate \<Rightarrow> sigrow option \<Rightarrow> real \<Rightarrow> bool" where
  "held_spec v cfg data k st st' w atr =
    ((reversal_fires v cfg data k (position st) \<longrightarrow>
        st' = \<lparr>position = - position st,
               trailing_stop = (if position st = 1
                  then close (data ! k) + atr * trailing_stop_multiplier cfg
                  else close (data ! k) - atr * trailing_stop_multiplier cfg),
               num_wrong = 0\<rparr>
        \<and> w = Some (if position st = 1 then (- 2, REVERSE_LONG_TO_SHORT)
                    else (2, REVERSE_SHORT_TO_LONG)))
     \<and> (\<not> reversal_fires v cfg data k (position st) \<longrightarrow> adverse data k (position st) \<longrightarrow>
          num_wrong_limit cfg \<le> num_wrong st + 1 \<longrightarrow>
          st' = st\<lparr>position := 0, num_wrong := 0\<rparr> \<and> w = Some (- position st, CLOSE))
     \<and> (w = None \<longrightarrow> adverse data k (position st) \<longrightarrow>
          position st' = position st \<and> num_wrong st' = num_wrong st + 1))"

section \<open>A small run of main5.py\<close>

text \<open>
  Eight bars for \<^verbatim>\<open>strat(data, sma_length=1, atr_length=1, trailing_stop_multiplier=2.0,
  rsi_entry_threshold_long=60, rsi_entry_threshold_short=40, num_wrong_limit=2)\<close> of
  \<^verbatim>\<open>main5.py\<close>: a warm-up bar, a long entry, two held bars, a forced close, a bar with a
  NaN ATR, a short entry and a held bar.
\<close>

definition cfg5 :: config where
  "cfg5 = \<lparr>ema_length = 1, sma_length = 1, atr_length = 1, rsi_length = 1,
           macd_fast = 1, macd_slow = 1, macd_signal = 1,
           trailing_stop_multiplier = 2, volume_lookback = 1, num_wrong_limit = 2,
           rsi_entry_threshold_long = 60, rsi_entry_threshold_short = 40\<rparr>"

definition bar5 :: "real \<Rightarrow> real \<Rightarrow> real option \<Rightarrow> real option \<Rightarrow> real option \<Rightarrow> row" where
  "bar5 opn c atr rsi sma =
     \<lparr>open_p = opn, high = max opn c, low = min opn c, close = c, volume = 100,
      ATR = atr, EMA = None, MACD = None, MACD_signal = None, RSI = rsi, SMA = sma\<rparr>"

definition frame5 :: "row list" where
  "frame5 =
     [bar5 9 (19 / 2) None None (Some (19 / 2)),
      bar5 9 10 (Some 1) (Some 70) (Some 8),
      bar5 10 12 (Some 1) (Some 65) (Some 9),
      bar5 12 (23 / 2) (Some 1) (Some 55) (Some 10),
      bar5 (23 / 2) 11 (Some 1) (Some 50) (Some 10),
      bar5 11 10 None (Some 30) (Some (21 / 2)),
      bar5 10 9 (Some 1) (Some 30) (Some 10),
      bar5 9 8 (Some 1) (Some 25) (Some (19 / 2))]"

definition out5 :: "sigrow list" where
  "out5 = [(0, HOLD), (1, LONG), (0, HOLD), (0, HOLD), (- 1, CLOSE), (0, HOLD), (- 1, SHORT),
           (0, HOLD)]"

section \<open>A small run of main3.py and main4.py\<close>

text \<open>
  Seven bars for \<^verbatim>\<open>strat(data, atr_length=1, volume_lookback=4, num_wrong_limit=1)\<close> with
  the other parameters at their defaults (multiplier 2.0, both RSI thresholds 50): four quiet
  bars, a bullish volume spike, a quiet bar, and a bearish volume spike with RSI 55.
\<close>

definition cfg34 :: config where
  "cfg34 = \<lparr>ema_length = 1, sma_length = 1, atr_length = 1, rsi_length = 1,
            macd_fast = 1, macd_slow = 1, macd_signal = 1,
            trailing_stop_multiplier = 2, volume_lookback = 4, num_wrong_limit = 1,
            rsi_entry_threshold_long = 50, rsi_entry_threshold_short = 50\<rparr>"

definition bar34 :: "real \<Rightarrow> real \<Rightarrow> real \<Rightarrow> real option \<Rightarrow> real option \<Rightarrow> row" where
  "bar34 opn c vol atr rsi =
     \<lparr>open_p = opn, high = max opn c, low = min opn c, close = c, volume = vol,
      ATR = atr, EMA = None, MACD = None, MACD_signal = None, RSI = rsi, SMA = None\<rparr>"

definition frame34 :: "row list" where
  "frame34 =
     [bar34 10 10 0 None None,
      bar34 10 10 0 (Some 1) (Some 50),
      bar34 10 10 0 (Some 1) (Some 50),
      bar34 10 10 0 (Some 1) (Some 50),
      bar34 10 11 10 (Some 1) (Some 60),
      bar34 11 12 0 (Some 1) (Some 60),
      bar34 12 11 100 (Some 1) (Some 55)]"

text \<open>
  Five bars whose volumes are 1, 1, 3, 3, 4, for the volume window at bar 4, and the window
  the specification describes: the \<open>volume_lookback\<close> bars strictly before bar \<open>i\<close>.
\<close>

definition frame8 :: "row list" where
  "frame8 =
     [bar34 10 10 1 (Some 1) (Some 50),
      bar34 10 10 1 (Some 1) (Some 50),
      bar34 10 10 3 (Some 1) (Some 50),
      bar34 10 10 3 (Some 1) (Some 50),
      bar34 10 11 4 (Some 1) (Some 60)]"

definition spec_vol_window_at :: "config \<Rightarrow> row list \<Rightarrow> nat \<Rightarrow> real list" where
  "spec_vol_window_at cfg data i =
     map (\<lambda>j. volume (data ! j)) [i - nat (volume_lookback cfg) ..< i]"

definition spec_volume_spike_at :: "config \<Rightarrow> row list \<Rightarrow> nat \<Rightarrow> bool" where
  "spec_volume_spike_at cfg data i =
     nan_gt (Some (volume (data ! i))) (vol_spike_threshold (spec_vol_window_at cfg data i))"

section \<open>Lemmas on the loop\<close>

lemma walk_append:
  "walk b (xs @ ys) st out =
     (case walk b xs st out of Inl e \<Rightarrow> Inl e | Inr (st', out') \<Rightarrow> walk b ys st' out')"
  by (induction xs arbitrary: st out) (auto split: sum.splits)

lemma run_upto_early:
  "0 \<le> s \<Longrightarrow> k \<le> nat s \<Longrightarrow> run_upto b s data k = Inr (init_state, init_out data)"
  by (simp add: run_upto_def)

lemma run_upto_Suc:
  assumes "0 \<le> s" "nat s \<le> k"
  shows "run_upto b s data (Suc k) =
     (case run_upto b s data k of
        Inl e \<Rightarrow> Inl e
      | Inr (st, out) \<Rightarrow>
         (case b k st of Inl e \<Rightarrow> Inl e
          | Inr (st', w) \<Rightarrow> Inr (st', write_row k w out)))"
proof -
  have "[nat s ..< Suc k] = [nat s ..< k] @ [k]" using assms by simp
  then show ?thesis using assms
    by (simp add: run_upto_def walk_append split: sum.splits prod.splits)
qed

lemma run_upto_neg: "s < 0 \<Longrightarrow> run_upto b s data k = Inl KeyError"
  by (simp add: run_upto_def)

lemma run_upto_prefix_ok:
  assumes "run_upto b s data n = Inr r" "k \<le> n"
  shows "\<exists>r'. run_upto b s data k = Inr r'"
  using assms(2,1)
proof (induction n arbitrary: r rule: dec_induct)
  case base then show ?case by simp
next
  case (step m)
  have s0: "0 \<le> s" using step.prems by (auto simp: run_upto_def split: if_splits)
  show ?case
  proof (cases "nat s \<le> m")
    case True
    from run_upto_Suc[OF s0 True, of b data] step.prems
    obtain r0 where "run_upto b s data m = Inr r0" by (auto split: sum.splits)
    with step.IH show ?thesis by blast
  next
    case False
    then have "k \<le> nat s" using step.hyps by simp
    then show ?thesis using run_upto_early[OF s0] by blast
  qed
qed

lemma walk_length:
  "walk b is st out = Inr (st', out') \<Longrightarrow> length out' = length out"
  by (induction "is" arbitrary: st out) (auto simp: write_row_def split: sum.splits option.splits)

lemma walk_nth_other:
  "walk b is st out = Inr (st', out') \<Longrightarrow> j \<notin> set is \<Longrightarrow> out' ! j = out ! j"
  by (induction "is" arbitrary: st out) (auto simp: write_row_def split: sum.splits option.splits)

lemma body_main3_trans:
  "body_main3 cfg data i st = Inr (st', w) \<Longrightarrow> trans cfg (data ! i) st st' w"
  unfolding body_main3_def Let_def
  by (auto split: option.splits if_splits sum.splits intro: trans.intros)

lemma body_main4_trans:
  "body_main4 cfg data i st = Inr (st', w) \<Longrightarrow> trans cfg (data ! i) st st' w"
  unfolding body_main4_def Let_def
  by (auto split: option.splits if_splits sum.splits intro: trans.intros)

lemma body_main5_trans:
  "body_main5 cfg data i st = Inr (st', w) \<Longrightarrow> trans cfg (data ! i) st st' w"
  unfolding body_main5_def Let_def
  by (auto split: option.splits if_splits sum.splits intro: trans.intros)

lemma body_Strategy_2_trans:
  "body_Strategy_2 cfg data i st = Inr (st', w) \<Longrightarrow> trans cfg (data ! i) st st' w"
  unfolding body_Strategy_2_def Let_def
  by (auto split: option.splits if_splits sum.splits intro: trans.intros)

lemma body_of_trans:
  "body_of v cfg data i st = Inr (st', w) \<Longrightarrow> trans cfg (data ! i) st st' w"
  by (cases v) (simp_all add: body_of_def body_main3_trans body_main4_trans body_main5_trans body_Strategy_2_trans)

lemma strat_eq: "strat v cfg data = map_sum id snd (state_at v cfg data (length data))"
  by (cases v)
     (simp_all add: strat_def state_at_def body_of_def start_idx_def run_loop_def
        strat_main3_def strat_main4_def strat_main5_def strat_Strategy_2_def)

lemma state_at_neg: "start_idx v cfg < 0 \<Longrightarrow> state_at v cfg data k = Inl KeyError"
  by (simp add: state_at_def run_upto_def)

lemma state_at_nonneg: "state_at v cfg data k = Inr r \<Longrightarrow> 0 \<le> start_idx v cfg"
  by (auto simp: state_at_def run_upto_def split: if_splits)

lemma strat_nonneg: "strat v cfg data = Inr res \<Longrightarrow> 0 \<le> start_idx v cfg"
  by (cases "state_at v cfg data (length data)") (auto simp: strat_eq dest: state_at_nonneg)

lemma state_at_early:
  "0 \<le> start_idx v cfg \<Longrightarrow> k \<le> nat (start_idx v cfg) \<Longrightarrow>
   state_at v cfg data k = Inr (init_state, init_out data)"
  by (simp add: state_at_def run_upto_early)

lemma state_at_Suc:
  "0 \<le> start_idx v cfg \<Longrightarrow> nat (start_idx v cfg) \<le> k \<Longrightarrow>
   state_at v cfg data (Suc k) =
     (case state_at v cfg data k of
        Inl e \<Rightarrow> Inl e
      | Inr (st, out) \<Rightarrow>
         (case body_of v cfg data k st of Inl e \<Rightarrow> Inl e
          | Inr (st', w) \<Rightarrow> Inr (st', write_row k w out)))"
  unfolding state_at_def by (rule run_upto_Suc)

lemma state_at_prefix:
  "state_at v cfg data n = Inr r \<Longrightarrow> k \<le> n \<Longrightarrow> \<exists>st out. state_at v cfg data k = Inr (st, out)"
  unfolding state_at_def using run_upto_prefix_ok by fastforce

lemma strat_state_at:
  assumes "strat v cfg data = Inr res" "k \<le> length data"
  shows "\<exists>st out. state_at v cfg data k = Inr (st, out)"
proof -
  obtain r where "state_at v cfg data (length data) = Inr r"
    using assms(1) by (cases "state_at v cfg data (length data)") (auto simp: strat_eq)
  then show ?thesis using assms(2) state_at_prefix by blast
qed

lemma state_at_step:
  assumes "state_at v cfg data k = Inr (st, out)" "state_at v cfg data (Suc k) = Inr (st', out')"
  shows "(k < nat (start_idx v cfg) \<and> st' = st \<and> out' = out \<and> st = init_state)
       \<or> (nat (start_idx v cfg) \<le> k
           \<and> (\<exists>w. body_of v cfg data k st = Inr (st', w) \<and> out' = write_row k w out))"
proof -
  have s0: "0 \<le> start_idx v cfg" using assms(1) by (rule state_at_nonneg)
  show ?thesis
  proof (cases "nat (start_idx v cfg) \<le> k")
    case True
    then show ?thesis using state_at_Suc[OF s0 True, of data] assms
      by (auto split: sum.splits)
  next
    case False
    then have "Suc k \<le> nat (start_idx v cfg)" by simp
    then show ?thesis using state_at_early[OF s0, of k data] state_at_early[OF s0, of "Suc k" data] assms
      by simp
  qed
qed

lemma state_at_trans:
  assumes "state_at v cfg data k = Inr (st, out)" "state_at v cfg data (Suc k) = Inr (st', out')"
  shows "\<exists>w. trans cfg (data ! k) st st' w \<and> out' = write_row k w out"
  using state_at_step[OF assms]
proof
  assume "k < nat (start_idx v cfg) \<and> st' = st \<and> out' = out \<and> st = init_state"
  then have "trans cfg (data ! k) st st' None \<and> out' = write_row k None out"
    by (simp add: trans.skip write_row_def)
  then show ?thesis by blast
next
  assume "nat (start_idx v cfg) \<le> k
           \<and> (\<exists>w. body_of v cfg data k st = Inr (st', w) \<and> out' = write_row k w out)"
  then show ?thesis using body_of_trans by blast
qed

lemma state_at_out:
  "state_at v cfg data k = Inr (st, out) \<Longrightarrow>
     length out = length data \<and> (\<forall>j\<ge>k. j < length data \<longrightarrow> out ! j = (0, HOLD))"
proof (intro conjI allI impI)
  assume a: "state_at v cfg data k = Inr (st, out)"
  then have w: "walk (body_of v cfg data) [nat (start_idx v cfg)..<k] init_state (init_out data)
      = Inr (st, out)"
    by (auto simp: state_at_def run_upto_def split: if_splits)
  show "length out = length data" using walk_length[OF w] by (simp add: init_out_def)
  fix j assume "k \<le> j" "j < length data"
  then have "j \<notin> set [nat (start_idx v cfg)..<k]" by simp
  from walk_nth_other[OF w this] show "out ! j = (0, HOLD)"
    using \<open>j < length data\<close> by (simp add: init_out_def)
qed

lemma state_at_later:
  assumes "state_at v cfg data k = Inr (st, out)" "state_at v cfg data n = Inr (st', out')"
    "k \<le> n" "j < k"
  shows "out' ! j = out ! j"
proof -
  have s0: "0 \<le> start_idx v cfg" using assms(1) by (rule state_at_nonneg)
  let ?s = "nat (start_idx v cfg)"
  show ?thesis
  proof (cases "?s \<le> k")
    case True
    have "[?s ..< n] = [?s ..< k] @ [k ..< n]"
      using True assms(3) by (metis le_Suc_ex upt_add_eq_append)
    then have "walk (body_of v cfg data) [k..<n] st out = Inr (st', out')"
      using assms(1,2) s0 by (simp add: state_at_def run_upto_def walk_append)
    moreover have "j \<notin> set [k..<n]" using assms(4) by simp
    ultimately show ?thesis by (rule walk_nth_other)
  next
    case False
    then have "out = init_out data" using state_at_early[OF s0, of k data] assms(1) by simp
    moreover have "j \<notin> set [?s ..< n]" using False assms(4) by simp
    moreover have "walk (body_of v cfg data) [?s ..< n] init_state (init_out data) = Inr (st', out')"
      using assms(2) s0 by (simp add: state_at_def run_upto_def)
    ultimately show ?thesis using walk_nth_other by blast
  qed
qed

lemma strat_row:
  assumes "strat v cfg data = Inr res" "k < length data"
    "state_at v cfg data k = Inr (st, out)" "state_at v cfg data (Suc k) = Inr (st', out')"
    "out' = write_row k w out"
  shows "res ! k = row_written w"
proof -
  obtain stn where n: "state_at v cfg data (length data) = Inr (stn, res)"
    using assms(1) by (cases "state_at v cfg data (length data)") (auto simp: strat_eq)
  have "res ! k = out' ! k"
    using state_at_later[OF assms(4) n, of k] assms(2) by simp
  moreover have "length out = length data" "out ! k = (0, HOLD)"
    using state_at_out[OF assms(3)] assms(2) by auto
  ultimately show ?thesis using assms(2,5)
    by (auto simp: write_row_def row_written_def split: option.splits)
qed

lemma strat_length: "strat v cfg data = Inr res \<Longrightarrow> length res = length data"
  by (cases "state_at v cfg data (length data)") (auto simp: strat_eq dest: state_at_out)


lemma body_main3_err: "body_main3 cfg data k st = Inl e \<Longrightarrow> k = 0 \<and> position st \<noteq> 0"
  unfolding body_main3_def Let_def prev_close_def
  by (auto split: option.splits if_splits sum.splits)

lemma body_main4_err: "body_main4 cfg data k st = Inl e \<Longrightarrow> k = 0 \<and> position st \<noteq> 0"
  unfolding body_main4_def Let_def prev_close_def
  by (auto split: option.splits if_splits sum.splits)

lemma body_main5_err: "body_main5 cfg data k st = Inl e \<Longrightarrow> k = 0 \<and> position st \<noteq> 0"
  unfolding body_main5_def Let_def prev_close_def
  by (auto split: option.splits if_splits sum.splits)

lemma body_Strategy_2_err: "body_Strategy_2 cfg data k st = Inl e \<Longrightarrow> k = 0"
  unfolding body_Strategy_2_def Let_def prev_close_def
  by (auto split: option.splits if_splits sum.splits)

lemma body_of_cong:
  assumes "take (Suc i) d = take (Suc i) d'" "j \<le> i" "i < length d" "i < length d'"
    and b: "volume_spike_at cfg d j = volume_spike_at cfg d' j"
  shows "body_of v cfg d j st = body_of v cfg d' j st"
proof -
  have nth: "\<And>k. k \<le> i \<Longrightarrow> d ! k = d' ! k"
    using assms(1) by (metis le_imp_less_Suc nth_take)
  have a: "d ! j = d' ! j" "d ! (j - 1) = d' ! (j - 1)" using nth assms(2) by simp_all
  show ?thesis
  proof (cases v)
    case Strategy_2
    show ?thesis unfolding Strategy_2 body_of_def variant.case body_Strategy_2_def prev_close_def a
      by (rule refl)
  next
    case Main3
    show ?thesis unfolding Main3 body_of_def variant.case body_main3_def prev_close_def a b
      by (rule refl)
  next
    case Main4
    show ?thesis unfolding Main4 body_of_def variant.case body_main4_def prev_close_def a b
      by (rule refl)
  next
    case Main5
    show ?thesis unfolding Main5 body_of_def variant.case body_main5_def prev_close_def a
      by (rule refl)
  qed
qed

lemma start_idx_Strategy_2_pos: "26 \<le> start_idx Strategy_2 cfg"
  by (simp add: start_idx_def start_idx_Strategy_2_def)

lemma body_of_ok:
  assumes "nat (start_idx v cfg) \<le> k" "0 < k \<or> position st = 0"
  shows "\<exists>st' w. body_of v cfg data k st = Inr (st', w)"
proof (cases "body_of v cfg data k st")
  case (Inr r)
  then show ?thesis by (cases r) simp
next
  case (Inl e)
  have "k = 0 \<and> (v = Strategy_2 \<or> position st \<noteq> 0)"
    using Inl body_main3_err body_main4_err body_main5_err body_Strategy_2_err
    by (cases v) (auto simp: body_of_def)
  moreover have "v = Strategy_2 \<Longrightarrow> 0 < k"
    using assms(1) start_idx_Strategy_2_pos[of cfg] by simp
  ultimately show ?thesis using assms(2) by auto
qed

lemma state_at_total:
  assumes "0 \<le> start_idx v cfg"
  shows "\<exists>st out. state_at v cfg data k = Inr (st, out)"
proof (induction k)
  case 0
  then show ?case using state_at_early[OF assms, of 0 data] by simp
next
  case (Suc k)
  then obtain st out where a: "state_at v cfg data k = Inr (st, out)" by blast
  show ?case
  proof (cases "nat (start_idx v cfg) \<le> k")
    case False
    then show ?thesis using state_at_early[OF assms, of "Suc k" data] by simp
  next
    case True
    have "0 < k \<or> position st = 0"
    proof (cases k)
      case 0
      then have "st = init_state" using a state_at_early[OF assms, of 0 data] by simp
      then show ?thesis by (simp add: init_state_def)
    qed simp
    from body_of_ok[OF True this] obtain st' w where "body_of v cfg data k st = Inr (st', w)"
      by blast
    then show ?thesis using state_at_Suc[OF assms True, of data] a by simp
  qed
qed

lemma strat_total: "0 \<le> start_idx v cfg \<Longrightarrow> \<exists>res. strat v cfg data = Inr res"
  using state_at_total[of v cfg data "length data"] by (auto simp: strat_eq)

lemma strat_neg: "start_idx v cfg < 0 \<Longrightarrow> strat v cfg data = Inl KeyError"
  by (simp add: strat_eq state_at_neg)

text \<open>Non-interference: bar j of the loop reads rows up to j only.\<close>

lemma vol_window_cong:
  assumes "take (Suc i) d = take (Suc i) d'" "j \<le> i" "i < length d" "i < length d'"
  shows "vol_window_at cfg d j = vol_window_at cfg d' j"
proof -
  have nth: "\<And>k. k \<le> j \<Longrightarrow> map volume d ! k = map volume d' ! k"
  proof -
    fix k assume "k \<le> j"
    then have "k < Suc i" "k < length d" "k < length d'" using assms by simp_all
    moreover from this have "d ! k = d' ! k" using assms(1) by (metis nth_take)
    ultimately show "map volume d ! k = map volume d' ! k" by simp
  qed
  have m: "min (length (map volume d)) (nat (int j + 1)) = Suc j"
    "min (length (map volume d')) (nat (int j + 1)) = Suc j"
    using assms by simp_all
  show ?thesis
    unfolding vol_window_at_def loc_slice_def m
    by (rule map_cong) (auto intro!: nth)
qed

lemma state_at_cong:
  assumes "take (Suc i) d = take (Suc i) d'" "i < length d" "i < length d'" "k \<le> Suc i"
  shows "map_sum id (\<lambda>(st, out). (st, take (Suc i) out)) (state_at v cfg d k)
       = map_sum id (\<lambda>(st, out). (st, take (Suc i) out)) (state_at v cfg d' k)"
proof (cases "0 \<le> start_idx v cfg")
  case False
  then show ?thesis by (simp add: state_at_neg)
next
  case s0: True
  from assms(4) show ?thesis
  proof (induction k)
    case 0
    then show ?case using state_at_early[OF s0, of 0] assms(2,3)
      by (simp add: init_out_def)
  next
    case (Suc k)
    show ?case
    proof (cases "nat (start_idx v cfg) \<le> k")
      case False
      then show ?thesis using state_at_early[OF s0, of "Suc k"] assms(2,3)
        by (simp add: init_out_def)
    next
      case True
      obtain st out where a: "state_at v cfg d k = Inr (st, out)"
        using state_at_total[OF s0] by blast
      obtain st2 out2 where b: "state_at v cfg d' k = Inr (st2, out2)"
        using state_at_total[OF s0] by blast
      have eq: "st2 = st" "take (Suc i) out2 = take (Suc i) out"
        using Suc a b by simp_all
      have ki: "k \<le> i" using Suc.prems by simp
      have vs: "volume_spike_at cfg d k = volume_spike_at cfg d' k"
        using vol_window_cong[OF assms(1) ki assms(2,3), of cfg] assms(1) ki
        by (metis le_imp_less_Suc nth_take volume_spike_at_def)
      have bc: "body_of v cfg d k st = body_of v cfg d' k st"
        using body_of_cong[OF assms(1) ki assms(2,3) vs] .
      show ?thesis
        using state_at_Suc[OF s0 True, of d] state_at_Suc[OF s0 True, of d'] a b eq bc
        by (auto simp: write_row_def take_update_swap split: sum.splits option.splits)
    qed
  qed
qed

lemma strat_noninterference:
  assumes "take (Suc i) d = take (Suc i) d'" "i < length d" "i < length d'"
  shows "map_sum id (\<lambda>res. res ! i) (strat v cfg d) = map_sum id (\<lambda>res. res ! i) (strat v cfg d')"
proof (cases "0 \<le> start_idx v cfg")
  case False
  then show ?thesis by (simp add: strat_neg)
next
  case s0: True
  obtain st out where a: "state_at v cfg d (Suc i) = Inr (st, out)"
    using state_at_total[OF s0] by blast
  obtain st2 out2 where b: "state_at v cfg d' (Suc i) = Inr (st2, out2)"
    using state_at_total[OF s0] by blast
  obtain stn res where n: "state_at v cfg d (length d) = Inr (stn, res)"
    using state_at_total[OF s0] by blast
  obtain stn2 res2 where n2: "state_at v cfg d' (length d') = Inr (stn2, res2)"
    using state_at_total[OF s0] by blast
  have "take (Suc i) out = take (Suc i) out2"
    using state_at_cong[OF assms, of "Suc i" v cfg] a b by simp
  then have "out ! i = out2 ! i" by (metis lessI nth_take)
  moreover have "res ! i = out ! i" using state_at_later[OF a n, of i] assms(2) by simp
  moreover have "res2 ! i = out2 ! i" using state_at_later[OF b n2, of i] assms(3) by simp
  ultimately show ?thesis using n n2 by (simp add: strat_eq)
qed

lemma body_of_skip:
  assumes "nat (start_idx v cfg) \<le> k" "isna_required v (data ! k)"
  shows "body_of v cfg data k st = Inr (st, None)"
proof (cases v)
  case Strategy_2
  then have "k \<noteq> 0" using assms(1) start_idx_Strategy_2_pos[of cfg] by simp
  then show ?thesis using assms(2) Strategy_2
    by (auto simp: body_of_def body_Strategy_2_def isna_required_def Let_def split: option.splits)
next
  case Main3 then show ?thesis using assms(2)
    by (auto simp: body_of_def body_main3_def isna_required_def Let_def split: option.splits)
next
  case Main4 then show ?thesis using assms(2)
    by (auto simp: body_of_def body_main4_def isna_required_def Let_def split: option.splits)
next
  case Main5 then show ?thesis using assms(2)
    by (auto simp: body_of_def body_main5_def isna_required_def Let_def split: option.splits)
qed

lemma body_main3_held:
  "body_main3 cfg data k st = Inr (st', w) \<Longrightarrow> position st = 1 \<or> position st = - 1 \<Longrightarrow>
   ATR (data ! k) = Some atr \<Longrightarrow> held_spec Main3 cfg data k st st' w atr"
  unfolding body_main3_def Let_def prev_close_def reversal_fires_def adverse_def held_spec_def
  by (auto split: if_splits option.splits)

lemma body_main4_held:
  "body_main4 cfg data k st = Inr (st', w) \<Longrightarrow> position st = 1 \<or> position st = - 1 \<Longrightarrow>
   ATR (data ! k) = Some atr \<Longrightarrow> RSI (data ! k) \<noteq> None \<Longrightarrow> held_spec Main4 cfg data k st st' w atr"
  unfolding body_main4_def Let_def prev_close_def reversal_fires_def adverse_def held_spec_def
  by (auto split: if_splits option.splits)

lemma body_main5_held:
  "body_main5 cfg data k st = Inr (st', w) \<Longrightarrow> position st = 1 \<or> position st = - 1 \<Longrightarrow>
   ATR (data ! k) = Some atr \<Longrightarrow> RSI (data ! k) \<noteq> None \<Longrightarrow> SMA (data ! k) \<noteq> None \<Longrightarrow>
   held_spec Main5 cfg data k st st' w atr"
  unfolding body_main5_def Let_def prev_close_def reversal_fires_def adverse_def held_spec_def
  by (auto split: if_splits option.splits)

lemma body_Strategy_2_held:
  "body_Strategy_2 cfg data k st = Inr (st', w) \<Longrightarrow> position st = 1 \<or> position st = - 1 \<Longrightarrow>
   ATR (data ! k) = Some atr \<Longrightarrow> MACD (data ! k) \<noteq> None \<Longrightarrow> MACD_signal (data ! k) \<noteq> None \<Longrightarrow>
   EMA (data ! k) \<noteq> None \<Longrightarrow>
   held_spec Strategy_2 cfg data k st st' w atr"
  unfolding body_Strategy_2_def Let_def prev_close_def reversal_fires_def adverse_def held_spec_def
  by (auto split: if_splits option.splits)

lemma body_of_held:
  assumes "body_of v cfg data k st = Inr (st', w)" "position st = 1 \<or> position st = - 1"
    "\<not> isna_required v (data ! k)"
  shows "\<exists>atr. ATR (data ! k) = Some atr \<and> held_spec v cfg data k st st' w atr"
  using assms body_main3_held[of cfg data k st st' w] body_main4_held[of cfg data k st st' w]
    body_main5_held[of cfg data k st st' w] body_Strategy_2_held[of cfg data k st st' w]
  by (cases v) (auto simp: body_of_def isna_required_def)


lemma trans_position:
  "trans cfg r st st' w \<Longrightarrow> position st \<in> {- 1, 0, 1} \<Longrightarrow> position st' \<in> {- 1, 0, 1}"
  by (induction rule: trans.induct) auto

lemma trans_counter:
  "trans cfg r st st' w \<Longrightarrow> 0 \<le> num_wrong st \<and> (num_wrong st = 0 \<or> num_wrong st < num_wrong_limit cfg)
   \<Longrightarrow> 0 \<le> num_wrong st' \<and> (num_wrong st' = 0 \<or> num_wrong st' < num_wrong_limit cfg)"
  by (induction rule: trans.induct) auto

lemma state_at_invariant:
  assumes "state_at v cfg data k = Inr (st, out)"
  shows "position st \<in> {- 1, 0, 1}
       \<and> 0 \<le> num_wrong st \<and> (num_wrong st = 0 \<or> num_wrong st < num_wrong_limit cfg)"
  using assms
proof (induction k arbitrary: st out)
  case 0
  have "0 \<le> start_idx v cfg" using 0 by (rule state_at_nonneg)
  then have "st = init_state" using state_at_early[where v=v and cfg=cfg and k=0 and data=data] 0 by simp
  then show ?case by (simp add: init_state_def)
next
  case (Suc k)
  obtain st0 out0 where a: "state_at v cfg data k = Inr (st0, out0)"
    using state_at_prefix[OF Suc.prems, of k] by auto
  from state_at_trans[OF a Suc.prems] obtain w where t: "trans cfg (data ! k) st0 st w" by blast
  from Suc.IH[OF a] trans_position[OF t] trans_counter[OF t] show ?case by blast
qed


lemma trans_stop:
  "trans cfg r st st' w \<Longrightarrow>
   (position st = 1 \<and> position st' = 1 \<longrightarrow>
      trailing_stop st \<le> trailing_stop st'
      \<and> (trailing_stop st' = trailing_stop st
         \<or> (\<exists>atr. ATR r = Some atr
              \<and> trailing_stop st' = max (trailing_stop st) (close r - atr * trailing_stop_multiplier cfg))))
   \<and> (position st = - 1 \<and> position st' = - 1 \<longrightarrow>
      trailing_stop st' \<le> trailing_stop st
      \<and> (trailing_stop st' = trailing_stop st
         \<or> (\<exists>atr. ATR r = Some atr
              \<and> trailing_stop st' = min (trailing_stop st) (close r + atr * trailing_stop_multiplier cfg))))"
  by (induction rule: trans.induct) auto

lemma trans_close:
  "trans cfg r st st' w \<Longrightarrow> snd (row_written w) = CLOSE \<Longrightarrow>
     position st' = 0 \<and> num_wrong st' = 0 \<and> trailing_stop st' = trailing_stop st"
  by (induction rule: trans.induct) (simp_all add: row_written_def)

lemma trans_open:
  "trans cfg r st st' w \<Longrightarrow> snd (row_written w) = LONG \<or> snd (row_written w) = SHORT \<Longrightarrow>
     position st = 0 \<and> position st' \<noteq> 0"
  by (induction rule: trans.induct) (simp_all add: row_written_def)

lemma trans_flatten:
  "trans cfg r st st' w \<Longrightarrow> position st \<noteq> 0 \<Longrightarrow> position st' = 0 \<Longrightarrow>
     snd (row_written w) = CLOSE"
  by (induction rule: trans.induct) (simp_all add: row_written_def)

section \<open>The small run of main5.py, evaluated\<close>


lemma start5: "start_idx Main5 cfg5 = 1"
  by (simp add: start_idx_def start_idx_main5_def cfg5_def)

lemma len5: "length frame5 = 8"
  by (simp add: frame5_def)

lemma init5: "init_out frame5 = [(0, HOLD), (0, HOLD), (0, HOLD), (0, HOLD), (0, HOLD), (0, HOLD), (0, HOLD), (0, HOLD)]"
  by (simp add: init_out_def len5 eval_nat_numeral)

lemmas eval5 = body_of_def body_main5_def frame5_def cfg5_def bar5_def Let_def prev_close_def

lemma body5_1: "body_of Main5 cfg5 frame5 1 init_state
   = Inr (\<lparr>position = 1, trailing_stop = 8, num_wrong = 0\<rparr>, Some (1, LONG))"
  by (simp add: eval5 init_state_def)

lemma body5_2: "body_of Main5 cfg5 frame5 2 \<lparr>position = 1, trailing_stop = 8, num_wrong = 0\<rparr>
   = Inr (\<lparr>position = 1, trailing_stop = 10, num_wrong = 0\<rparr>, None)"
  by (simp add: eval5)

lemma body5_3: "body_of Main5 cfg5 frame5 3 \<lparr>position = 1, trailing_stop = 10, num_wrong = 0\<rparr>
   = Inr (\<lparr>position = 1, trailing_stop = 10, num_wrong = 1\<rparr>, None)"
  by (simp add: eval5)

lemma body5_4: "body_of Main5 cfg5 frame5 4 \<lparr>position = 1, trailing_stop = 10, num_wrong = 1\<rparr>
   = Inr (\<lparr>position = 0, trailing_stop = 10, num_wrong = 0\<rparr>, Some (- 1, CLOSE))"
  by (simp add: eval5)

lemma body5_5: "body_of Main5 cfg5 frame5 5 \<lparr>position = 0, trailing_stop = 10, num_wrong = 0\<rparr>
   = Inr (\<lparr>position = 0, trailing_stop = 10, num_wrong = 0\<rparr>, None)"
  by (simp add: eval5)

lemma body5_6: "body_of Main5 cfg5 frame5 6 \<lparr>position = 0, trailing_stop = 10, num_wrong = 0\<rparr>
   = Inr (\<lparr>position = - 1, trailing_stop = 11, num_wrong = 0\<rparr>, Some (- 1, SHORT))"
  by (simp add: eval5)

lemma body5_7: "body_of Main5 cfg5 frame5 7 \<lparr>position = - 1, trailing_stop = 11, num_wrong = 0\<rparr>
   = Inr (\<lparr>position = - 1, trailing_stop = 10, num_wrong = 0\<rparr>, None)"
  by (simp add: eval5)

lemma step5:
  assumes "state_at Main5 cfg5 frame5 k = Inr (st, out)" "1 \<le> k"
    "body_of Main5 cfg5 frame5 k st = Inr (st', w)"
  shows "state_at Main5 cfg5 frame5 (Suc k) = Inr (st', write_row k w out)"
  using state_at_Suc[of Main5 cfg5 k frame5] assms by (simp add: start5)

lemma state5_1: "state_at Main5 cfg5 frame5 1 = Inr (init_state, init_out frame5)"
  using state_at_early[of Main5 cfg5 1 frame5] by (simp add: start5)

lemma state5_2:
  "state_at Main5 cfg5 frame5 2
     = Inr (\<lparr>position = 1, trailing_stop = 8, num_wrong = 0\<rparr>,
            [(0, HOLD), (1, LONG), (0, HOLD), (0, HOLD), (0, HOLD), (0, HOLD), (0, HOLD), (0, HOLD)])"
  using step5[OF state5_1 _ body5_1] by (simp add: write_row_def init5 numeral_2_eq_2)

lemma state5_3:
  "state_at Main5 cfg5 frame5 3
     = Inr (\<lparr>position = 1, trailing_stop = 10, num_wrong = 0\<rparr>,
            [(0, HOLD), (1, LONG), (0, HOLD), (0, HOLD), (0, HOLD), (0, HOLD), (0, HOLD), (0, HOLD)])"
  using step5[OF state5_2 _ body5_2] by (simp add: write_row_def)

lemma state5_4:
  "state_at Main5 cfg5 frame5 4
     = Inr (\<lparr>position = 1, trailing_stop = 10, num_wrong = 1\<rparr>,
            [(0, HOLD), (1, LONG), (0, HOLD), (0, HOLD), (0, HOLD), (0, HOLD), (0, HOLD), (0, HOLD)])"
  using step5[OF state5_3 _ body5_3] by (simp add: write_row_def)

lemma state5_5:
  "state_at Main5 cfg5 frame5 5
     = Inr (\<lparr>position = 0, trailing_stop = 10, num_wrong = 0\<rparr>,
            [(0, HOLD), (1, LONG), (0, HOLD), (0, HOLD), (- 1, CLOSE), (0, HOLD), (0, HOLD), (0, HOLD)])"
  using step5[OF state5_4 _ body5_4] by (simp add: write_row_def)

lemma state5_6:
  "state_at Main5 cfg5 frame5 6
     = Inr (\<lparr>position = 0, trailing_stop = 10, num_wrong = 0\<rparr>,
            [(0, HOLD), (1, LONG), (0, HOLD), (0, HOLD), (- 1, CLOSE), (0, HOLD), (0, HOLD), (0, HOLD)])"
  using step5[OF state5_5 _ body5_5] by (simp add: write_row_def)

lemma state5_7:
  "state_at Main5 cfg5 frame5 7
     = Inr (\<lparr>position = - 1, trailing_stop = 11, num_wrong = 0\<rparr>,
            [(0, HOLD), (1, LONG), (0, HOLD), (0, HOLD), (- 1, CLOSE), (0, HOLD), (- 1, SHORT), (0, HOLD)])"
  using step5[OF state5_6 _ body5_6] by (simp add: write_row_def)

lemma state5_8:
  "state_at Main5 cfg5 frame5 8
     = Inr (\<lparr>position = - 1, trailing_stop = 10, num_wrong = 0\<rparr>, out5)"
  using step5[OF state5_7 _ body5_7] by (simp add: write_row_def out5_def)

lemma strat5: "strat Main5 cfg5 frame5 = Inr out5"
  by (simp add: strat_eq len5 state5_8)


section \<open>The small runs of main3.py and main4.py, evaluated\<close>


lemma sqrt_less_iff_sq:
  fixes a y :: real
  assumes "0 \<le> y"
  shows "sqrt y < a \<longleftrightarrow> 0 < a \<and> y < a\<^sup>2"
proof (cases "0 < a")
  case True
  then have "sqrt (a\<^sup>2) = a" by simp
  then have "sqrt y < a \<longleftrightarrow> sqrt y < sqrt (a\<^sup>2)" by simp
  also have "\<dots> \<longleftrightarrow> y < a\<^sup>2" by (rule real_sqrt_less_iff)
  finally show ?thesis using True by simp
next
  case False
  have "0 \<le> sqrt y" using assms by simp
  then show ?thesis using False by linarith
qed

text \<open>The spike test without the square root, for evaluation.\<close>

lemma spike_iff:
  assumes "2 \<le> length xs"
  shows "nan_gt (Some x) (vol_spike_threshold xs) \<longleftrightarrow>
     (let m = sum_list xs / real (length xs);
          var = sum_list (map (\<lambda>x. (x - m)\<^sup>2) xs) / (real (length xs) - 1)
      in m < x \<and> 9 * var < 4 * (x - m)\<^sup>2)"
proof -
  define m where "m = sum_list xs / real (length xs)"
  define var where "var = sum_list (map (\<lambda>x. (x - m)\<^sup>2) xs) / (real (length xs) - 1)"
  have v0: "0 \<le> var" unfolding var_def using assms
    by (intro divide_nonneg_nonneg sum_list_nonneg) auto
  have ne: "xs \<noteq> []" "\<not> length xs < 2" using assms by auto
  have "nan_gt (Some x) (vol_spike_threshold xs) \<longleftrightarrow> m + 1.5 * sqrt var < x"
    using ne by (simp add: nan_gt_def vol_spike_threshold_def mean_def std_def m_def var_def)
  also have "\<dots> \<longleftrightarrow> sqrt var < (x - m) * 2 / 3" by (simp add: field_simps)
  also have "\<dots> \<longleftrightarrow> 0 < (x - m) * 2 / 3 \<and> var < ((x - m) * 2 / 3)\<^sup>2"
    using sqrt_less_iff_sq[OF v0] .
  also have "\<dots> \<longleftrightarrow> m < x \<and> 9 * var < 4 * (x - m)\<^sup>2"
    by (simp add: power2_eq_square field_simps)
  finally show ?thesis by (simp add: Let_def m_def var_def)
qed

lemma win34_4: "vol_window_at cfg34 frame34 4 = [0, 0, 0, 0, 10]"
  by (simp add: vol_window_at_def loc_slice_def cfg34_def frame34_def bar34_def upt_rec)

lemma win34_5: "vol_window_at cfg34 frame34 5 = [0, 0, 0, 10, 0]"
  by (simp add: vol_window_at_def loc_slice_def cfg34_def frame34_def bar34_def upt_rec)

lemma win34_6: "vol_window_at cfg34 frame34 6 = [0, 0, 10, 0, 100]"
  by (simp add: vol_window_at_def loc_slice_def cfg34_def frame34_def bar34_def upt_rec)

lemma spike34_4: "volume_spike_at cfg34 frame34 4"
  unfolding volume_spike_at_def Let_def win34_4
  by (subst spike_iff) (simp_all add: frame34_def bar34_def power2_eq_square)

lemma spike34_5: "\<not> volume_spike_at cfg34 frame34 5"
  unfolding volume_spike_at_def Let_def win34_5
  by (subst spike_iff) (simp_all add: frame34_def bar34_def power2_eq_square)

lemma spike34_6: "volume_spike_at cfg34 frame34 6"
  unfolding volume_spike_at_def Let_def win34_6
  by (subst spike_iff) (simp_all add: frame34_def bar34_def power2_eq_square)


lemma start34: "start_idx Main3 cfg34 = 4" "start_idx Main4 cfg34 = 4"
  by (simp_all add: start_idx_def start_idx_main3_def start_idx_main4_def cfg34_def)

lemma len34: "length frame34 = 7"
  by (simp add: frame34_def)

lemma init34: "init_out frame34 = [(0, HOLD), (0, HOLD), (0, HOLD), (0, HOLD), (0, HOLD), (0, HOLD), (0, HOLD)]"
  by (simp add: init_out_def len34 eval_nat_numeral)


lemma rows34:
  "frame34 ! 3 = bar34 10 10 0 (Some 1) (Some 50)"
  "frame34 ! 4 = bar34 10 11 10 (Some 1) (Some 60)"
  "frame34 ! 5 = bar34 11 12 0 (Some 1) (Some 60)"
  "frame34 ! 6 = bar34 12 11 100 (Some 1) (Some 55)"
  by (simp_all add: frame34_def)

lemma cfg34_fields:
  "trailing_stop_multiplier cfg34 = 2" "num_wrong_limit cfg34 = 1"
  "rsi_entry_threshold_long cfg34 = 50" "rsi_entry_threshold_short cfg34 = 50"
  by (simp_all add: cfg34_def)

lemmas eval3 = body_of_def body_main3_def rows34 cfg34_fields bar34_def Let_def prev_close_def
  spike34_4 spike34_5 spike34_6 init_state_def
lemmas eval4 = body_of_def body_main4_def rows34 cfg34_fields bar34_def Let_def prev_close_def
  spike34_4 spike34_5 spike34_6 init_state_def

lemma body3_4: "body_of Main3 cfg34 frame34 4 init_state
   = Inr (\<lparr>position = 1, trailing_stop = 9, num_wrong = 0\<rparr>, Some (1, LONG))"
  by (simp add: eval3)

lemma body3_5: "body_of Main3 cfg34 frame34 5 \<lparr>position = 1, trailing_stop = 9, num_wrong = 0\<rparr>
   = Inr (\<lparr>position = 1, trailing_stop = 10, num_wrong = 0\<rparr>, None)"
  by (simp add: eval3)

lemma body3_6: "body_of Main3 cfg34 frame34 6 \<lparr>position = 1, trailing_stop = 10, num_wrong = 0\<rparr>
   = Inr (\<lparr>position = - 1, trailing_stop = 13, num_wrong = 0\<rparr>, Some (- 2, REVERSE_LONG_TO_SHORT))"
  by (simp add: eval3)

lemma body4_4: "body_of Main4 cfg34 frame34 4 init_state
   = Inr (\<lparr>position = 1, trailing_stop = 9, num_wrong = 0\<rparr>, Some (1, LONG))"
  by (simp add: eval4)

lemma body4_5: "body_of Main4 cfg34 frame34 5 \<lparr>position = 1, trailing_stop = 9, num_wrong = 0\<rparr>
   = Inr (\<lparr>position = 1, trailing_stop = 10, num_wrong = 0\<rparr>, None)"
  by (simp add: eval4)

lemma body4_6: "body_of Main4 cfg34 frame34 6 \<lparr>position = 1, trailing_stop = 10, num_wrong = 0\<rparr>
   = Inr (\<lparr>position = 0, trailing_stop = 10, num_wrong = 0\<rparr>, Some (- 1, CLOSE))"
  by (simp add: eval4)

lemma step34:
  assumes "state_at v cfg34 frame34 k = Inr (st, out)" "v = Main3 \<or> v = Main4" "4 \<le> k"
    "body_of v cfg34 frame34 k st = Inr (st', w)"
  shows "state_at v cfg34 frame34 (Suc k) = Inr (st', write_row k w out)"
  using state_at_Suc[of v cfg34 k frame34] assms start34 by auto

lemma state34_4:
  "v = Main3 \<or> v = Main4 \<Longrightarrow> state_at v cfg34 frame34 4 = Inr (init_state, init_out frame34)"
  using state_at_early[of v cfg34 4 frame34] start34 by auto

lemma state3_5:
  "state_at Main3 cfg34 frame34 5
     = Inr (\<lparr>position = 1, trailing_stop = 9, num_wrong = 0\<rparr>,
            [(0, HOLD), (0, HOLD), (0, HOLD), (0, HOLD), (1, LONG), (0, HOLD), (0, HOLD)])"
  using step34[OF state34_4 _ _ body3_4] by (simp add: write_row_def init34)

lemma state3_6:
  "state_at Main3 cfg34 frame34 6
     = Inr (\<lparr>position = 1, trailing_stop = 10, num_wrong = 0\<rparr>,
            [(0, HOLD), (0, HOLD), (0, HOLD), (0, HOLD), (1, LONG), (0, HOLD), (0, HOLD)])"
  using step34[OF state3_5 _ _ body3_5] by (simp add: write_row_def)

lemma state3_7:
  "state_at Main3 cfg34 frame34 7
     = Inr (\<lparr>position = - 1, trailing_stop = 13, num_wrong = 0\<rparr>,
            [(0, HOLD), (0, HOLD), (0, HOLD), (0, HOLD), (1, LONG), (0, HOLD),
             (- 2, REVERSE_LONG_TO_SHORT)])"
  using step34[OF state3_6 _ _ body3_6] by (simp add: write_row_def)

lemma strat3: "strat Main3 cfg34 frame34
    = Inr [(0, HOLD), (0, HOLD), (0, HOLD), (0, HOLD), (1, LONG), (0, HOLD),
           (- 2, REVERSE_LONG_TO_SHORT)]"
  by (simp add: strat_eq len34 state3_7)

lemma state4_5:
  "state_at Main4 cfg34 frame34 5
     = Inr (\<lparr>position = 1, trailing_stop = 9, num_wrong = 0\<rparr>,
            [(0, HOLD), (0, HOLD), (0, HOLD), (0, HOLD), (1, LONG), (0, HOLD), (0, HOLD)])"
  using step34[OF state34_4 _ _ body4_4] by (simp add: write_row_def init34)

lemma state4_6:
  "state_at Main4 cfg34 frame34 6
     = Inr (\<lparr>position = 1, trailing_stop = 10, num_wrong = 0\<rparr>,
            [(0, HOLD), (0, HOLD), (0, HOLD), (0, HOLD), (1, LONG), (0, HOLD), (0, HOLD)])"
  using step34[OF state4_5 _ _ body4_5] by (simp add: write_row_def)

lemma state4_7:
  "state_at Main4 cfg34 frame34 7
     = Inr (\<lparr>position = 0, trailing_stop = 10, num_wrong = 0\<rparr>,
            [(0, HOLD), (0, HOLD), (0, HOLD), (0, HOLD), (1, LONG), (0, HOLD), (- 1, CLOSE)])"
  using step34[OF state4_6 _ _ body4_6] by (simp add: write_row_def)

lemma strat4: "strat Main4 cfg34 frame34
    = Inr [(0, HOLD), (0, HOLD), (0, HOLD), (0, HOLD), (1, LONG), (0, HOLD), (- 1, CLOSE)]"
  by (simp add: strat_eq len34 state4_7)


section \<open>Claims on the position state machine\<close>

lemma trans_rows:
  "trans cfg r st st' w \<Longrightarrow>
     row_written w \<in> {(0, HOLD), (1, LONG), (- 1, SHORT), (- 1, CLOSE), (1, CLOSE),
                      (- 2, REVERSE_LONG_TO_SHORT), (2, REVERSE_SHORT_TO_LONG)}"
  by (induction rule: trans.induct) (simp_all add: row_written_def)

lemma trans_close_side:
  "trans cfg r st st' w \<Longrightarrow>
     (row_written w = (- 1, CLOSE) \<longrightarrow> position st = 1)
   \<and> (row_written w = (1, CLOSE) \<longrightarrow> position st = - 1)"
  by (induction rule: trans.induct) (simp_all add: row_written_def)

lemma strat_trans:
  assumes "strat v cfg data = Inr res" "k < length data"
  shows "\<exists>st out st' out' w. state_at v cfg data k = Inr (st, out)
     \<and> state_at v cfg data (Suc k) = Inr (st', out')
     \<and> trans cfg (data ! k) st st' w \<and> res ! k = row_written w"
proof -
  obtain st out where a: "state_at v cfg data k = Inr (st, out)"
    using strat_state_at[OF assms(1), of k] assms(2) by auto
  obtain st' out' where b: "state_at v cfg data (Suc k) = Inr (st', out')"
    using strat_state_at[OF assms(1), of "Suc k"] assms(2) by auto
  from state_at_trans[OF a b] obtain w where
    t: "trans cfg (data ! k) st st' w" and o: "out' = write_row k w out" by blast
  have "res ! k = row_written w" using strat_row[OF assms a b o] .
  with a b t show ?thesis by blast
qed

text \<open>
  C2 (trailing-stop monotonicity). From each bar to the next, while the position stays long
  the trailing stop does not decrease, and it is either unchanged (bar skipped) or
  \<open>max trailing_stop (close - ATR * multiplier)\<close>; while the position stays short it does not
  increase, and is unchanged or \<open>min trailing_stop (close + ATR * multiplier)\<close>. This holds
  for every variant, configuration and frame.
\<close>

theorem trailing_stop_monotone:
  assumes "k < length data"
    and "state_at v cfg data k = Inr (st, out)"
    and "state_at v cfg data (Suc k) = Inr (st', out')"
  shows "(position st = 1 \<and> position st' = 1 \<longrightarrow>
      trailing_stop st \<le> trailing_stop st'
      \<and> (trailing_stop st' = trailing_stop st
         \<or> (\<exists>atr. ATR (data ! k) = Some atr
              \<and> trailing_stop st' = max (trailing_stop st)
                    (close (data ! k) - atr * trailing_stop_multiplier cfg))))
   \<and> (position st = - 1 \<and> position st' = - 1 \<longrightarrow>
      trailing_stop st' \<le> trailing_stop st
      \<and> (trailing_stop st' = trailing_stop st
         \<or> (\<exists>atr. ATR (data ! k) = Some atr
              \<and> trailing_stop st' = min (trailing_stop st)
                    (close (data ! k) + atr * trailing_stop_multiplier cfg))))"
proof -
  from state_at_trans[OF assms(2,3)] obtain w where "trans cfg (data ! k) st st' w" by blast
  then show ?thesis by (rule trans_stop)
qed

text \<open>
  C7, amended (reset on close). Whenever a bar emits CLOSE, the position becomes flat and the
  adverse counter becomes 0; the trailing stop keeps the value it had (it is set again at the
  next entry).
\<close>

theorem close_resets_side_and_counter:
  assumes "strat v cfg data = Inr res" and "k < length data" and "snd (res ! k) = CLOSE"
    and "state_at v cfg data k = Inr (st, out)"
    and "state_at v cfg data (Suc k) = Inr (st', out')"
  shows "position st' = 0 \<and> num_wrong st' = 0 \<and> trailing_stop st' = trailing_stop st"
proof -
  from state_at_trans[OF assms(4,5)] obtain w where
    t: "trans cfg (data ! k) st st' w" and o: "out' = write_row k w out" by blast
  from strat_row[OF assms(1,2,4,5) o] assms(3) have "snd (row_written w) = CLOSE" by simp
  with t show ?thesis by (rule trans_close)
qed

text \<open>
  C6 (warm-up and undefined-indicator safety). A bar before \<open>start_idx\<close>, or a bar at which
  an indicator the variant tests with \<open>pd.isna\<close> is NaN, keeps its row at 0 / HOLD and leaves
  the loop variables and the output written so far exactly as they were.
\<close>

theorem warmup_safety:
  assumes "strat v cfg data = Inr res" and "k < length data"
    and "int k < start_idx v cfg \<or> isna_required v (data ! k)"
    and "state_at v cfg data k = Inr (st, out)"
  shows "res ! k = (0, HOLD) \<and> state_at v cfg data (Suc k) = Inr (st, out)"
proof -
  have s0: "0 \<le> start_idx v cfg" using assms(1) by (rule strat_nonneg)
  have nxt: "state_at v cfg data (Suc k) = Inr (st, write_row k None out)"
  proof (cases "nat (start_idx v cfg) \<le> k")
    case False
    then have "Suc k \<le> nat (start_idx v cfg)" "k \<le> nat (start_idx v cfg)" by simp_all
    then show ?thesis
      using state_at_early[OF s0, of "Suc k" data] state_at_early[OF s0, of k data] assms(4)
      by (simp add: write_row_def)
  next
    case True
    then have "isna_required v (data ! k)" using assms(3) by auto
    from body_of_skip[OF True this, where st=st] show ?thesis
      using state_at_Suc[OF s0 True, of data] assms(4) by simp
  qed
  from strat_row[OF assms(1,2,4) nxt refl] have "res ! k = (0, HOLD)"
    by (simp add: row_written_def)
  then show ?thesis using nxt by (simp add: write_row_def)
qed

text \<open>
  C10 (signal / trade\_type pairing). Every output row is one of the seven listed pairs;
  the signal has magnitude 2 exactly on a reversal and is 0 exactly on HOLD; a CLOSE with
  signal -1 closes a long and a CLOSE with signal 1 closes a short.
\<close>

theorem signal_pairing:
  assumes "strat v cfg data = Inr res" and "k < length data"
    and "state_at v cfg data k = Inr (st, out)"
  shows "res ! k \<in> {(0, HOLD), (1, LONG), (- 1, SHORT), (- 1, CLOSE), (1, CLOSE),
                      (- 2, REVERSE_LONG_TO_SHORT), (2, REVERSE_SHORT_TO_LONG)}
     \<and> (\<bar>fst (res ! k)\<bar> = 2 \<longleftrightarrow> snd (res ! k) \<in> {REVERSE_LONG_TO_SHORT, REVERSE_SHORT_TO_LONG})
     \<and> (fst (res ! k) = 0 \<longleftrightarrow> snd (res ! k) = HOLD)
     \<and> (res ! k = (- 1, CLOSE) \<longrightarrow> position st = 1)
     \<and> (res ! k = (1, CLOSE) \<longrightarrow> position st = - 1)"
proof -
  from strat_trans[OF assms(1,2)] obtain st0 out0 st1 out1 w where
    a: "state_at v cfg data k = Inr (st0, out0)" and t: "trans cfg (data ! k) st0 st1 w"
    and r: "res ! k = row_written w" by blast
  have e: "st0 = st" using a assms(3) by simp
  have m: "res ! k \<in> {(0, HOLD), (1, LONG), (- 1, SHORT), (- 1, CLOSE), (1, CLOSE),
                      (- 2, REVERSE_LONG_TO_SHORT), (2, REVERSE_SHORT_TO_LONG)}"
    using trans_rows[OF t] r by simp
  have c: "(res ! k = (- 1, CLOSE) \<longrightarrow> position st = 1)
         \<and> (res ! k = (1, CLOSE) \<longrightarrow> position st = - 1)"
    using trans_close_side[OF t] r e by simp
  obtain s ty where p: "res ! k = (s, ty)" by (cases "res ! k")
  have "(\<bar>s\<bar> = 2 \<longleftrightarrow> ty \<in> {REVERSE_LONG_TO_SHORT, REVERSE_SHORT_TO_LONG}) \<and> (s = 0 \<longleftrightarrow> ty = HOLD)"
    using m unfolding p by auto
  then show ?thesis using m c unfolding p by simp
qed

lemma first_flat:
  fixes f :: "nat \<Rightarrow> int"
  assumes "a \<le> b" "f a \<noteq> 0" "f b = 0"
  shows "\<exists>j. a \<le> j \<and> j < b \<and> f j \<noteq> 0 \<and> f (Suc j) = 0"
  using assms
proof (induction b rule: dec_induct)
  case base then show ?case by simp
next
  case (step n)
  show ?case
  proof (cases "f n = 0")
    case True
    with step obtain j where "a \<le> j" "j < n" "f j \<noteq> 0" "f (Suc j) = 0" by blast
    then show ?thesis using less_Suc_eq by blast
  next
    case False
    then show ?thesis using step by blast
  qed
qed

lemma strat_position_at:
  assumes "strat v cfg data = Inr res" "k \<le> length data"
  shows "\<exists>st out. state_at v cfg data k = Inr (st, out) \<and> position st \<in> {- 1, 0, 1}"
proof -
  from strat_state_at[OF assms] obtain st out where a: "state_at v cfg data k = Inr (st, out)"
    by blast
  from state_at_invariant[OF a] have "position st \<in> {- 1, 0, 1}" by blast
  with a show ?thesis by blast
qed

lemma strat_open_flat:
  assumes "strat v cfg data = Inr res" "k < length data"
    "snd (res ! k) = LONG \<or> snd (res ! k) = SHORT"
  shows "\<exists>st out st' out'. state_at v cfg data k = Inr (st, out) \<and> position st = 0
     \<and> state_at v cfg data (Suc k) = Inr (st', out') \<and> position st' \<noteq> 0"
proof -
  from strat_trans[OF assms(1,2)] obtain st out st' out' w where
    a: "state_at v cfg data k = Inr (st, out)" and b: "state_at v cfg data (Suc k) = Inr (st', out')"
    and t: "trans cfg (data ! k) st st' w" and r: "res ! k = row_written w" by blast
  have "snd (row_written w) = LONG \<or> snd (row_written w) = SHORT" using assms(3) r by simp
  from trans_open[OF t this] a b show ?thesis by blast
qed

lemma strat_close_between:
  assumes "strat v cfg data = Inr res" "i < k" "k < length data"
    "snd (res ! i) = LONG \<or> snd (res ! i) = SHORT"
    "snd (res ! k) = LONG \<or> snd (res ! k) = SHORT"
  shows "\<exists>j. i < j \<and> j < k \<and> snd (res ! j) = CLOSE"
proof -
  define f where "f n = (case state_at v cfg data n of Inr (st, out) \<Rightarrow> position st | Inl e \<Rightarrow> 0)" for n
  have il: "i < length data" using assms(2,3) by simp
  from strat_open_flat[OF assms(1) il assms(4)] have fa: "f (Suc i) \<noteq> 0"
    by (auto simp: f_def)
  from strat_open_flat[OF assms(1,3,5)] have fb: "f k = 0"
    by (auto simp: f_def)
  have "Suc i \<le> k" using assms(2) by simp
  from first_flat[OF this fa fb] obtain j where
    j: "Suc i \<le> j" "j < k" "f j \<noteq> 0" "f (Suc j) = 0" by blast
  have jl: "j < length data" using j(2) assms(3) by simp
  from strat_trans[OF assms(1) jl] obtain st out st' out' w where
    a: "state_at v cfg data j = Inr (st, out)" and b: "state_at v cfg data (Suc j) = Inr (st', out')"
    and t: "trans cfg (data ! j) st st' w" and r: "res ! j = row_written w" by blast
  have "position st \<noteq> 0" "position st' = 0" using j(3,4) a b by (simp_all add: f_def)
  from trans_flatten[OF t this] r have "snd (res ! j) = CLOSE" by simp
  then show ?thesis using j(1,2) by (intro exI[of _ j]) simp
qed

text \<open>
  C3 (single open position). On every bar the position is one of -1 (short), 0 (flat) and
  1 (long); LONG or SHORT is emitted only at a bar entered flat; and between two opening
  signals there is a CLOSE, so that no opening signal occurs between an opening signal and
  the next CLOSE or REVERSE.
\<close>

theorem single_open_position:
  assumes "strat v cfg data = Inr res"
  shows "(\<forall>k\<le>length data. \<exists>st out. state_at v cfg data k = Inr (st, out) \<and> position st \<in> {- 1, 0, 1})
   \<and> (\<forall>k<length data. snd (res ! k) = LONG \<or> snd (res ! k) = SHORT \<longrightarrow>
         (\<exists>st out. state_at v cfg data k = Inr (st, out) \<and> position st = 0))
   \<and> (\<forall>i k. i < k \<and> k < length data
          \<and> (snd (res ! i) = LONG \<or> snd (res ! i) = SHORT)
          \<and> (snd (res ! k) = LONG \<or> snd (res ! k) = SHORT)
         \<longrightarrow> (\<exists>j. i < j \<and> j < k
                \<and> snd (res ! j) \<in> {CLOSE, REVERSE_LONG_TO_SHORT, REVERSE_SHORT_TO_LONG}))"
proof (intro conjI allI impI)
  fix k assume "k \<le> length data"
  then show "\<exists>st out. state_at v cfg data k = Inr (st, out) \<and> position st \<in> {- 1, 0, 1}"
    by (rule strat_position_at[OF assms])
next
  fix k assume "k < length data" "snd (res ! k) = LONG \<or> snd (res ! k) = SHORT"
  from strat_open_flat[OF assms this]
  show "\<exists>st out. state_at v cfg data k = Inr (st, out) \<and> position st = 0" by blast
next
  fix i k
  assume h: "i < k \<and> k < length data
          \<and> (snd (res ! i) = LONG \<or> snd (res ! i) = SHORT)
          \<and> (snd (res ! k) = LONG \<or> snd (res ! k) = SHORT)"
  then have "\<exists>j. i < j \<and> j < k \<and> snd (res ! j) = CLOSE"
    using strat_close_between[OF assms, of i k] by blast
  then show "\<exists>j. i < j \<and> j < k
                \<and> snd (res ! j) \<in> {CLOSE, REVERSE_LONG_TO_SHORT, REVERSE_SHORT_TO_LONG}"
    by auto
qed


section \<open>The claims on the small run\<close>

theorem trailing_stop_monotone_witness:
  "2 < length frame5
   \<and> state_at Main5 cfg5 frame5 2
       = Inr (\<lparr>position = 1, trailing_stop = 8, num_wrong = 0\<rparr>,
              [(0, HOLD), (1, LONG), (0, HOLD), (0, HOLD), (0, HOLD), (0, HOLD), (0, HOLD), (0, HOLD)])
   \<and> state_at Main5 cfg5 frame5 (Suc 2)
       = Inr (\<lparr>position = 1, trailing_stop = 10, num_wrong = 0\<rparr>,
              [(0, HOLD), (1, LONG), (0, HOLD), (0, HOLD), (0, HOLD), (0, HOLD), (0, HOLD), (0, HOLD)])
   \<and> (8::real) \<le> 10
   \<and> (\<exists>atr. ATR (frame5 ! 2) = Some atr
         \<and> (10::real) = max 8 (close (frame5 ! 2) - atr * trailing_stop_multiplier cfg5))"
proof -
  have l: "2 < length frame5" by (simp add: len5)
  have b: "state_at Main5 cfg5 frame5 (Suc 2)
       = Inr (\<lparr>position = 1, trailing_stop = 10, num_wrong = 0\<rparr>,
              [(0, HOLD), (1, LONG), (0, HOLD), (0, HOLD), (0, HOLD), (0, HOLD), (0, HOLD), (0, HOLD)])"
    using state5_3 by simp
  from trailing_stop_monotone[OF l state5_2 b] l state5_2 b show ?thesis by simp
qed

theorem close_resets_side_and_counter_witness:
  "strat Main5 cfg5 frame5 = Inr out5 \<and> 4 < length frame5 \<and> snd (out5 ! 4) = CLOSE
   \<and> map_sum id fst (state_at Main5 cfg5 frame5 4)
       = Inr \<lparr>position = 1, trailing_stop = 10, num_wrong = 1\<rparr>
   \<and> map_sum id fst (state_at Main5 cfg5 frame5 (Suc 4))
       = Inr \<lparr>position = 0, trailing_stop = 10, num_wrong = 0\<rparr>"
proof -
  have l: "4 < length frame5" by (simp add: len5)
  have c: "snd (out5 ! 4) = CLOSE" by (simp add: out5_def)
  have b: "state_at Main5 cfg5 frame5 (Suc 4)
     = Inr (\<lparr>position = 0, trailing_stop = 10, num_wrong = 0\<rparr>,
            [(0, HOLD), (1, LONG), (0, HOLD), (0, HOLD), (- 1, CLOSE), (0, HOLD), (0, HOLD), (0, HOLD)])"
    using state5_5 by simp
  from close_resets_side_and_counter[OF strat5 l c state5_4 b] strat5 l c state5_4 b
  show ?thesis by simp
qed

text \<open>
  C7 as stated fails: after the CLOSE at bar 4 of the small run the loop variables are
  flat / 10 / 0, not the initial flat / 0 / 0.
\<close>

theorem close_reset_counterexample:
  "strat Main5 cfg5 frame5 = Inr out5 \<and> out5 ! 4 = (- 1, CLOSE)
   \<and> map_sum id fst (state_at Main5 cfg5 frame5 5)
       = Inr \<lparr>position = 0, trailing_stop = 10, num_wrong = 0\<rparr>
   \<and> \<lparr>position = 0, trailing_stop = 10, num_wrong = 0\<rparr> \<noteq> init_state"
  by (simp add: strat5 state5_5 out5_def init_state_def)

theorem warmup_safety_witness:
  "strat Main5 cfg5 frame5 = Inr out5 \<and> 5 < length frame5
   \<and> isna_required Main5 (frame5 ! 5)
   \<and> out5 ! 5 = (0, HOLD)
   \<and> state_at Main5 cfg5 frame5 (Suc 5) = state_at Main5 cfg5 frame5 5"
proof -
  have l: "5 < length frame5" by (simp add: len5)
  have n: "isna_required Main5 (frame5 ! 5)"
    by (simp add: isna_required_def frame5_def bar5_def)
  then have "int 5 < start_idx Main5 cfg5 \<or> isna_required Main5 (frame5 ! 5)" by simp
  from warmup_safety[OF strat5 l this state5_5] strat5 l n state5_5 show ?thesis
    by (simp add: out5_def)
qed

theorem signal_pairing_witness:
  "strat Main5 cfg5 frame5 = Inr out5 \<and> 4 < length frame5
   \<and> out5 ! 4 = (- 1, CLOSE)
   \<and> map_sum id (position \<circ> fst) (state_at Main5 cfg5 frame5 4) = Inr 1"
proof -
  have l: "4 < length frame5" by (simp add: len5)
  from signal_pairing[OF strat5 l state5_4] strat5 l state5_4 show ?thesis
    by (simp add: out5_def)
qed

theorem single_open_position_witness:
  "strat Main5 cfg5 frame5 = Inr out5 \<and> snd (out5 ! 1) = LONG \<and> snd (out5 ! 6) = SHORT
   \<and> (\<exists>st out. state_at Main5 cfg5 frame5 6 = Inr (st, out) \<and> position st = 0)
   \<and> (\<exists>j. 1 < j \<and> j < 6
         \<and> snd (out5 ! j) \<in> {CLOSE, REVERSE_LONG_TO_SHORT, REVERSE_SHORT_TO_LONG})"
proof -
  note t = single_open_position[OF strat5]
  have o1: "snd (out5 ! 1) = LONG" and o6: "snd (out5 ! 6) = SHORT" by (simp_all add: out5_def)
  have l: "6 < length frame5" by (simp add: len5)
  from t have "\<forall>k<length frame5. snd (out5 ! k) = LONG \<or> snd (out5 ! k) = SHORT \<longrightarrow>
         (\<exists>st out. state_at Main5 cfg5 frame5 k = Inr (st, out) \<and> position st = 0)"
    by (rule conjunct1[OF conjunct2])
  with l o6 have a: "\<exists>st out. state_at Main5 cfg5 frame5 6 = Inr (st, out) \<and> position st = 0"
    by blast
  from t have "\<forall>i k. i < k \<and> k < length frame5
          \<and> (snd (out5 ! i) = LONG \<or> snd (out5 ! i) = SHORT)
          \<and> (snd (out5 ! k) = LONG \<or> snd (out5 ! k) = SHORT)
         \<longrightarrow> (\<exists>j. i < j \<and> j < k
                \<and> snd (out5 ! j) \<in> {CLOSE, REVERSE_LONG_TO_SHORT, REVERSE_SHORT_TO_LONG})"
    by (rule conjunct2[OF conjunct2])
  then have "(1::nat) < 6 \<and> 6 < length frame5
          \<and> (snd (out5 ! 1) = LONG \<or> snd (out5 ! 1) = SHORT)
          \<and> (snd (out5 ! 6) = LONG \<or> snd (out5 ! 6) = SHORT)
         \<longrightarrow> (\<exists>j. 1 < j \<and> j < 6
                \<and> snd (out5 ! j) \<in> {CLOSE, REVERSE_LONG_TO_SHORT, REVERSE_SHORT_TO_LONG})"
    by blast
  with l o1 o6 have b: "\<exists>j. 1 < j \<and> j < 6
                \<and> snd (out5 ! j) \<in> {CLOSE, REVERSE_LONG_TO_SHORT, REVERSE_SHORT_TO_LONG}"
    by simp
  from strat5 o1 o6 a b show ?thesis by blast
qed



lemma strat_body:
  assumes "strat v cfg data = Inr res" "k < length data" "nat (start_idx v cfg) \<le> k"
    "state_at v cfg data k = Inr (st, out)"
  shows "\<exists>st' w. body_of v cfg data k st = Inr (st', w)
       \<and> state_at v cfg data (Suc k) = Inr (st', write_row k w out)
       \<and> res ! k = row_written w"
proof -
  obtain st' out' where b: "state_at v cfg data (Suc k) = Inr (st', out')"
    using strat_state_at[OF assms(1), of "Suc k"] assms(2) by auto
  from state_at_step[OF assms(4) b] assms(3) obtain w where
    w: "body_of v cfg data k st = Inr (st', w)" "out' = write_row k w out" by auto
  from strat_row[OF assms(1,2,4) b w(2)] w b show ?thesis by blast
qed



lemma reversal_not_isna:
  "reversal_fires v cfg data k p \<Longrightarrow> ATR (data ! k) = Some atr \<Longrightarrow> \<not> isna_required v (data ! k)"
  by (cases v) (auto simp: reversal_fires_def isna_required_def split: option.splits if_splits)

text \<open>
  C5, amended (reversal atomicity and priority). In \<^verbatim>\<open>main3.py\<close> a held long whose bar has
  a volume spike and a bearish candle, and in \<^verbatim>\<open>main4.py\<close> one whose bar has in addition
  \<open>rsi \<le> rsi_entry_threshold_short\<close>, emits the single row -2 / REVERSE\_LONG\_TO\_SHORT,
  becomes short with trailing stop \<open>close + ATR * multiplier\<close> and counter 0, whatever the
  adverse counter and the trailing stop are. Mirror for a held short (in \<^verbatim>\<open>main4.py\<close> with
  \<open>rsi \<ge> rsi_entry_threshold_long\<close>).
\<close>

theorem reversal_priority:
  assumes "strat v cfg data = Inr res"
    and "nat (start_idx v cfg) \<le> k" and "k < length data"
    and "state_at v cfg data k = Inr (st, out)"
    and "position st = 1 \<or> position st = - 1"
    and "ATR (data ! k) = Some atr"
    and "reversal_fires v cfg data k (position st)"
  shows "res ! k = (if position st = 1 then (- 2, REVERSE_LONG_TO_SHORT)
                    else (2, REVERSE_SHORT_TO_LONG))
       \<and> state_at v cfg data (Suc k)
           = Inr (\<lparr>position = - position st,
                   trailing_stop = (if position st = 1
                      then close (data ! k) + atr * trailing_stop_multiplier cfg
                      else close (data ! k) - atr * trailing_stop_multiplier cfg),
                   num_wrong = 0\<rparr>, out[k := res ! k])"
proof -
  from strat_body[OF assms(1,3,2,4)] obtain st' w where
    b: "body_of v cfg data k st = Inr (st', w)"
    and nx: "state_at v cfg data (Suc k) = Inr (st', write_row k w out)"
    and r: "res ! k = row_written w" by blast
  have ni: "\<not> isna_required v (data ! k)" using reversal_not_isna[OF assms(7,6)] .
  from body_of_held[OF b assms(5) ni] assms(6) have "held_spec v cfg data k st st' w atr" by auto
  then have
    s: "st' = \<lparr>position = - position st,
               trailing_stop = (if position st = 1
                  then close (data ! k) + atr * trailing_stop_multiplier cfg
                  else close (data ! k) - atr * trailing_stop_multiplier cfg),
               num_wrong = 0\<rparr>"
    and w: "w = Some (if position st = 1 then (- 2, REVERSE_LONG_TO_SHORT)
                    else (2, REVERSE_SHORT_TO_LONG))"
    using assms(7) by (simp_all add: held_spec_def)
  have r': "res ! k = (if position st = 1 then (- 2, REVERSE_LONG_TO_SHORT)
                    else (2, REVERSE_SHORT_TO_LONG))"
    using r w by (simp add: row_written_def)
  have "write_row k w out = out[k := res ! k]" using w r' by (simp add: write_row_def)
  with nx s r' show ?thesis by simp
qed




theorem reversal_priority_witness:
  "strat Main3 cfg34 frame34
     = Inr [(0, HOLD), (0, HOLD), (0, HOLD), (0, HOLD), (1, LONG), (0, HOLD),
            (- 2, REVERSE_LONG_TO_SHORT)]
   \<and> nat (start_idx Main3 cfg34) \<le> 6 \<and> 6 < length frame34
   \<and> map_sum id fst (state_at Main3 cfg34 frame34 6)
        = Inr \<lparr>position = 1, trailing_stop = 10, num_wrong = 0\<rparr>
   \<and> ATR (frame34 ! 6) = Some 1
   \<and> reversal_fires Main3 cfg34 frame34 6 1
   \<and> adverse frame34 6 1 \<and> num_wrong_limit cfg34 \<le> 0 + 1
   \<and> map_sum id fst (state_at Main3 cfg34 frame34 (Suc 6))
        = Inr \<lparr>position = - 1, trailing_stop = 13, num_wrong = 0\<rparr>"
proof -
  let ?st = "\<lparr>position = 1, trailing_stop = 10, num_wrong = 0\<rparr>"
  have s: "nat (start_idx Main3 cfg34) \<le> 6" by (simp add: start34)
  have l: "6 < length frame34" by (simp add: len34)
  have p: "position ?st = 1 \<or> position ?st = - 1" by simp
  have a: "ATR (frame34 ! 6) = Some 1" by (simp add: rows34 bar34_def)
  have r: "reversal_fires Main3 cfg34 frame34 6 1"
    by (simp add: reversal_fires_def spike34_6 rows34 bar34_def)
  then have r': "reversal_fires Main3 cfg34 frame34 6 (position ?st)" by simp
  have d: "adverse frame34 6 1" "num_wrong_limit cfg34 \<le> 0 + 1"
    by (simp_all add: adverse_def rows34 bar34_def cfg34_fields)
  from reversal_priority[OF strat3 s l state3_6 p a r']
  have "map_sum id fst (state_at Main3 cfg34 frame34 (Suc 6))
        = Inr \<lparr>position = - 1, trailing_stop = 13, num_wrong = 0\<rparr>"
    by (simp add: rows34 bar34_def cfg34_fields)
  with strat3 s l state3_6 a r d show ?thesis by simp
qed

text \<open>
  C5 as stated fails on \<^verbatim>\<open>main4.py\<close>: at bar 6 of the small run the long position meets a
  volume spike with a bearish candle, but the RSI (55) is above
  \<open>rsi_entry_threshold_short\<close> (50); no reversal is emitted, and the adverse counter closes the
  position instead.
\<close>

theorem reversal_counterexample:
  "map_sum id fst (state_at Main4 cfg34 frame34 6)
        = Inr \<lparr>position = 1, trailing_stop = 10, num_wrong = 0\<rparr>
   \<and> ATR (frame34 ! 6) = Some 1 \<and> RSI (frame34 ! 6) = Some 55
   \<and> volume_spike_at cfg34 frame34 6 \<and> close (frame34 ! 6) < open_p (frame34 ! 6)
   \<and> map_sum id (\<lambda>res. res ! 6) (strat Main4 cfg34 frame34) = Inr (- 1, CLOSE)
   \<and> (- 1, CLOSE) \<noteq> (- 2 :: int, REVERSE_LONG_TO_SHORT)"
  by (simp add: state4_6 strat4 spike34_6 rows34 bar34_def)


end
